theory Spec2Isabelle
  imports Main "HOL-Library.Word" "HOL-Library.List_Lexorder" "HOL-Library.Char_ord"
begin

section \<open>Bytes, strings and the encodings of the platform\<close>

text \<open>
  A \<^verbatim>\<open>Uint8Array\<close> or \<^verbatim>\<open>Buffer\<close> is a list of 8-bit words. A JavaScript string (well
  formed: every surrogate in a pair) is modelled by the list of its UTF-8 bytes
  (\<^typ>\<open>string\<close>), so \<^verbatim>\<open>Buffer.from(s, 'utf8')\<close> only changes the type of the elements.
\<close>

type_synonym bytes = "8 word list"

datatype js_error = Error string | TypeError string

definition Buffer_from_utf8 :: "string \<Rightarrow> bytes" where
  "Buffer_from_utf8 s = map of_char s"

text \<open>
  The UTF-16 code units of a string, read from its UTF-8 bytes: one unit for a sequence
  of one, two or three bytes, a surrogate pair for a sequence of four. The comparison
  of strings, \<^verbatim>\<open>length\<close> and the base64 decoder work on code units. A byte that starts
  no sequence (it stands for no string) is passed on as it is.
\<close>

fun code_units :: "string \<Rightarrow> 16 word list" where
  "code_units [] = []"
| "code_units (c # r) =
     (let b = (of_char c :: nat) in
      if b < 0xC0 then of_nat b # code_units r
      else if b < 0xE0 then
        (case r of
           c1 # r1 \<Rightarrow> of_nat ((b - 0xC0) * 64 + of_char c1 mod 64) # code_units r1
         | _ \<Rightarrow> of_nat b # code_units r)
      else if b < 0xF0 then
        (case r of
           c1 # c2 # r2 \<Rightarrow>
             of_nat ((b - 0xE0) * 4096 + of_char c1 mod 64 * 64 + of_char c2 mod 64)
             # code_units r2
         | _ \<Rightarrow> of_nat b # code_units r)
      else
        (case r of
           c1 # c2 # c3 # r3 \<Rightarrow>
             (let v = (b - 0xF0) * 262144 + of_char c1 mod 64 * 4096
                      + of_char c2 mod 64 * 64 + of_char c3 mod 64 - 0x10000
              in of_nat (0xD800 + v div 1024) # of_nat (0xDC00 + v mod 1024)
                 # code_units r3)
         | _ \<Rightarrow> of_nat b # code_units r))"

text \<open>
  Base64: three bytes become four 6-bit groups; a final group of one or two bytes becomes
  two or three 6-bit groups whose unused low bits are zero.
\<close>

fun sextets :: "bytes \<Rightarrow> nat list" where
  "sextets (a # b # c # r) =
     [unat a div 4, (unat a mod 4) * 16 + unat b div 16,
      (unat b mod 16) * 4 + unat c div 64, unat c mod 64] @ sextets r"
| "sextets [a, b] =
     [unat a div 4, (unat a mod 4) * 16 + unat b div 16, (unat b mod 16) * 4]"
| "sextets [a] = [unat a div 4, (unat a mod 4) * 16]"
| "sextets [] = []"

definition b64_char :: "bool \<Rightarrow> nat \<Rightarrow> char" where
  "b64_char url n =
     (if n < 26 then char_of (65 + n)
      else if n < 52 then char_of (71 + n)
      else if n < 62 then char_of (n - 4)
      else if n = 62 then (if url then CHR ''-'' else CHR ''+'')
      else (if url then CHR ''_'' else CHR ''/''))"

text \<open>\<^verbatim>\<open>buf.toString('base64url')\<close>: the URL alphabet, no padding.\<close>

definition toString_base64url :: "bytes \<Rightarrow> string" where
  "toString_base64url bs = map (b64_char True) (sextets bs)"

text \<open>\<^verbatim>\<open>buf.toString('base64')\<close>: the standard alphabet, padded with \<^verbatim>\<open>=\<close>.\<close>

definition toString_base64 :: "bytes \<Rightarrow> string" where
  "toString_base64 bs =
     map (b64_char False) (sextets bs) @ replicate ((3 - length bs mod 3) mod 3) (CHR ''='')"

text \<open>
  \<^verbatim>\<open>Buffer.from(s, 'base64url')\<close> never raises on a string. It reads the low byte of
  every code unit of the string. It accepts the standard and the URL alphabet alike,
  skips every byte outside them (white space included), stops at the first \<^verbatim>\<open>=\<close>, and
  does not look at the unused low bits of a final partial group; a single left-over
  character yields no byte.
\<close>

definition unbase64 :: "char \<Rightarrow> nat option" where
  "unbase64 c =
     (let k = (of_char c :: nat) in
      if 65 \<le> k \<and> k \<le> 90 then Some (k - 65)
      else if 97 \<le> k \<and> k \<le> 122 then Some (k - 71)
      else if 48 \<le> k \<and> k \<le> 57 then Some (k + 4)
      else if c = CHR ''-'' \<or> c = CHR ''+'' then Some 62
      else if c = CHR ''_'' \<or> c = CHR ''/'' then Some 63
      else None)"

fun unsextets :: "nat list \<Rightarrow> bytes" where
  "unsextets (a # b # c # d # r) =
     [of_nat (a * 4 + b div 16), of_nat ((b mod 16) * 16 + c div 4),
      of_nat ((c mod 4) * 64 + d)] @ unsextets r"
| "unsextets [a, b, c] = [of_nat (a * 4 + b div 16), of_nat ((b mod 16) * 16 + c div 4)]"
| "unsextets [a, b] = [of_nat (a * 4 + b div 16)]"
| "unsextets [a] = []"
| "unsextets [] = []"

definition Buffer_from_base64url :: "string \<Rightarrow> bytes" where
  "Buffer_from_base64url s =
     unsextets (List.map_filter unbase64
       (takeWhile (\<lambda>c. c \<noteq> CHR ''='') (map (\<lambda>u. char_of (unat u)) (code_units s))))"

text \<open>
  \<^verbatim>\<open>bs58.encode\<close>: every leading zero byte becomes \<^verbatim>\<open>1\<close>, the rest is the big-endian
  number written in base 58 over the Bitcoin alphabet.
\<close>

definition b58_alphabet :: string where
  "b58_alphabet = ''123456789ABCDEFGHJKLMNPQRSTUVWXYZabcdefghijkmnopqrstuvwxyz''"

definition bytes_to_nat :: "bytes \<Rightarrow> nat" where
  "bytes_to_nat bs = foldl (\<lambda>acc b. acc * 256 + unat b) 0 bs"

function digits58 :: "nat \<Rightarrow> nat list" where
  "digits58 n = (if n = 0 then [] else digits58 (n div 58) @ [n mod 58])"
  by pat_completeness auto
termination
  by (relation "measure id") auto

definition bs58_encode :: "bytes \<Rightarrow> string" where
  "bs58_encode bs =
     replicate (length (takeWhile (\<lambda>b. b = 0) bs)) (CHR ''1'')
     @ map (\<lambda>d. b58_alphabet ! d) (digits58 (bytes_to_nat bs))"

text \<open>A number in a template string: its decimal digits.\<close>

function show_nat :: "nat \<Rightarrow> string" where
  "show_nat n =
     (if n < 10 then [char_of (48 + n)] else show_nat (n div 10) @ [char_of (48 + n mod 10)])"
  by pat_completeness auto
termination
  by (relation "measure id") auto

text \<open>A string is truthy when it is neither \<^verbatim>\<open>undefined\<close>/\<^verbatim>\<open>null\<close> nor empty.\<close>

definition truthy :: "string option \<Rightarrow> bool" where
  "truthy s = (case s of None \<Rightarrow> False | Some t \<Rightarrow> t \<noteq> [])"

section \<open>JSON values and \<^verbatim>\<open>JSON.stringify\<close> with an array replacer\<close>

text \<open>
  The values \<^verbatim>\<open>jcsCanonicalize\<close> is run on: \<^verbatim>\<open>undefined\<close>, \<^verbatim>\<open>null\<close>, booleans, strings,
  arrays and plain objects (an association list in insertion order, keys distinct).
  Numbers are IEEE doubles and are left out; so are functions, symbols and objects with
  a \<^verbatim>\<open>toJSON\<close> method.
\<close>

datatype jsval = JUndefined | JNull | JBool bool | JStr string
  | JArr "jsval list" | JObj "(string \<times> jsval) list"

fun join :: "string \<Rightarrow> string list \<Rightarrow> string" where
  "join sep [] = []"
| "join sep [x] = x"
| "join sep (x # y # r) = x @ sep @ join sep (y # r)"

definition hex_digit :: "nat \<Rightarrow> char" where
  "hex_digit n = (if n < 10 then char_of (48 + n) else char_of (87 + n))"

text \<open>
  QuoteJSONString: the quote, the backslash and the control characters are escaped
  (\<^verbatim>\<open>\b \t \n \f \r\<close>, otherwise \<^verbatim>\<open>\u00XX\<close> in lower-case hexadecimal).
\<close>

definition escape_char :: "char \<Rightarrow> string" where
  "escape_char c =
     (let k = (of_char c :: nat) in
      if k = 0x22 then [CHR 0x5C, CHR 0x22]
      else if k = 0x5C then [CHR 0x5C, CHR 0x5C]
      else if k = 8 then [CHR 0x5C, CHR ''b'']
      else if k = 9 then [CHR 0x5C, CHR ''t'']
      else if k = 10 then [CHR 0x5C, CHR ''n'']
      else if k = 12 then [CHR 0x5C, CHR ''f'']
      else if k = 13 then [CHR 0x5C, CHR ''r'']
      else if k < 32 then [CHR 0x5C, CHR ''u'', CHR ''0'', CHR ''0'',
                           hex_digit (k div 16), hex_digit (k mod 16)]
      else [c])"

definition quoteJSON :: "string \<Rightarrow> string" where
  "quoteJSON s = [CHR 0x22] @ concat (map escape_char s) @ [CHR 0x22]"

text \<open>
  SerializeJSONProperty with a property list \<open>K\<close> and no indentation. \<open>None\<close> is
  \<^verbatim>\<open>undefined\<close>: such a member is left out of an object and written \<^verbatim>\<open>null\<close> in an
  array. The property list is used for \<^emph>\<open>every\<close> object met, at any depth: an object
  is written with those names of \<open>K\<close> (in the order of \<open>K\<close>) that it has.
\<close>

fun serializeJSON :: "string list \<Rightarrow> jsval \<Rightarrow> string option" where
  "serializeJSON K JUndefined = None"
| "serializeJSON K JNull = Some ''null''"
| "serializeJSON K (JBool b) = Some (if b then ''true'' else ''false'')"
| "serializeJSON K (JStr s) = Some (quoteJSON s)"
| "serializeJSON K (JArr xs) =
     Some (''['' @ join '',''
       (map (\<lambda>v. case serializeJSON K v of None \<Rightarrow> ''null'' | Some t \<Rightarrow> t) xs) @ '']'')"
| "serializeJSON K (JObj kvs) =
     Some (''{'' @ join '',''
       (List.map_filter
          (\<lambda>P. case map_of (map (\<lambda>(k, v). (k, serializeJSON K v)) kvs) P of
                 Some (Some t) \<Rightarrow> Some (quoteJSON P @ '':'' @ t)
               | _ \<Rightarrow> None) K) @ ''}'')"

text \<open>
  \<^verbatim>\<open>JSON.stringify(value, replacer)\<close> with an array of strings as replacer: the property
  list is the array without repetitions.
\<close>

definition JSON_stringify :: "jsval \<Rightarrow> string list \<Rightarrow> string option" where
  "JSON_stringify v replacer = serializeJSON (remdups replacer) v"

text \<open>
  \<^verbatim>\<open>Object.keys\<close>: raises on \<^verbatim>\<open>undefined\<close> and \<^verbatim>\<open>null\<close>; a boolean has no keys, a string
  has the indices of its code units, an array its indices, an object its own keys.
\<close>

definition Object_keys :: "jsval \<Rightarrow> js_error + string list" where
  "Object_keys v =
     (case v of
        JUndefined \<Rightarrow> Inl (TypeError ''Cannot convert undefined or null to object'')
      | JNull \<Rightarrow> Inl (TypeError ''Cannot convert undefined or null to object'')
      | JBool b \<Rightarrow> Inr []
      | JStr s \<Rightarrow> Inr (map show_nat [0..<length (code_units s)])
      | JArr xs \<Rightarrow> Inr (map show_nat [0..<length xs])
      | JObj kvs \<Rightarrow> Inr (map fst kvs))"

text \<open>
  \<^verbatim>\<open>jcsCanonicalize(obj) = JSON.stringify(obj, Object.keys(obj).sort())\<close>. The default
  sort is stable and orders strings by their UTF-16 code units. \<^verbatim>\<open>JSON.stringify\<close> yields \<^verbatim>\<open>undefined\<close> only
  for a value that \<^verbatim>\<open>Object.keys\<close> has already rejected, so the last branch is never
  taken; every caller would raise there.
\<close>

definition jcsCanonicalize :: "jsval \<Rightarrow> js_error + string" where
  "jcsCanonicalize obj =
     (case Object_keys obj of
        Inl e \<Rightarrow> Inl e
      | Inr ks \<Rightarrow>
          (case JSON_stringify obj (sort_key code_units ks) of
             Some s \<Rightarrow> Inr s
           | None \<Rightarrow> Inl (TypeError ''undefined is not a string'')))"

section \<open>The libraries behind the key generator\<close>

text \<open>
  The source of randomness is a tape of bytes; \<^verbatim>\<open>crypto.randomBytes(n)\<close> reads the next
  \<open>n\<close> bytes and moves on, so two draws never read the same cell.
\<close>

type_synonym rng = "nat \<Rightarrow> 8 word"

definition randomBytes :: "nat \<Rightarrow> rng \<Rightarrow> bytes \<times> rng" where
  "randomBytes n g = (map g [0..<n], \<lambda>i. g (n + i))"

text \<open>
  The signature schemes (\<^verbatim>\<open>@noble/ed25519\<close>, \<^verbatim>\<open>@noble/secp256k1\<close>) and the digest
  (\<^verbatim>\<open>createHash('sha256')\<close>) are not code of this repository: they are parameters of
  the model. A primitive that can throw returns a sum; \<open>sign\<close> takes the message and
  the private key, \<open>verify\<close> the signature, the message and the public key, in the
  order of the library calls.
\<close>

record crypto_lib =
  ed25519_randomPrivateKey :: "rng \<Rightarrow> bytes \<times> rng"
  ed25519_getPublicKey :: "bytes \<Rightarrow> js_error + bytes"
  ed25519_sign :: "bytes \<Rightarrow> bytes \<Rightarrow> js_error + bytes"
  ed25519_verify :: "bytes \<Rightarrow> bytes \<Rightarrow> bytes \<Rightarrow> js_error + bool"
  secp256k1_randomPrivateKey :: "rng \<Rightarrow> bytes \<times> rng"
  secp256k1_getPublicKey :: "bytes \<Rightarrow> js_error + bytes"
  secp256k1_sign :: "bytes \<Rightarrow> bytes \<Rightarrow> js_error + bytes"
  secp256k1_verify :: "bytes \<Rightarrow> bytes \<Rightarrow> bytes \<Rightarrow> js_error + bool"
  sha256_digest :: "bytes \<Rightarrow> bytes"

text \<open>\<^verbatim>\<open>try { body } catch (error) { return false; }\<close>\<close>

definition catch_false :: "js_error + bool \<Rightarrow> js_error + bool" where
  "catch_false body = (case body of Inl e \<Rightarrow> Inr False | Inr b \<Rightarrow> Inr b)"

section \<open>Signing and verifying (\<^verbatim>\<open>anp-key-generator.ts\<close>)\<close>

record SignatureData =
  sd_nonce :: string
  sd_timestamp :: string
  sd_service :: string
  sd_did :: string

text \<open>The object a \<^verbatim>\<open>SignatureData\<close> is at run time, its keys in the order of the source.\<close>

definition SignatureData_obj :: "SignatureData \<Rightarrow> jsval" where
  "SignatureData_obj d =
     JObj [(''nonce'', JStr (sd_nonce d)), (''timestamp'', JStr (sd_timestamp d)),
           (''service'', JStr (sd_service d)), (''did'', JStr (sd_did d))]"

definition signEd25519 :: "crypto_lib \<Rightarrow> bytes \<Rightarrow> jsval \<Rightarrow> js_error + string" where
  "signEd25519 P privateKey data =
     (case jcsCanonicalize data of
        Inl e \<Rightarrow> Inl e
      | Inr canonicalJson \<Rightarrow>
          let message = Buffer_from_utf8 canonicalJson in
          (case ed25519_sign P message privateKey of
             Inl e \<Rightarrow> Inl e
           | Inr signature \<Rightarrow> Inr (toString_base64url signature)))"

definition signSecp256k1 :: "crypto_lib \<Rightarrow> bytes \<Rightarrow> jsval \<Rightarrow> js_error + string" where
  "signSecp256k1 P privateKey data =
     (case jcsCanonicalize data of
        Inl e \<Rightarrow> Inl e
      | Inr canonicalJson \<Rightarrow>
          let messageHash = sha256_digest P (Buffer_from_utf8 canonicalJson) in
          (case secp256k1_sign P messageHash privateKey of
             Inl e \<Rightarrow> Inl e
           | Inr signature \<Rightarrow> Inr (toString_base64url signature)))"

definition verifyEd25519 :: "crypto_lib \<Rightarrow> bytes \<Rightarrow> string \<Rightarrow> jsval \<Rightarrow> js_error + bool" where
  "verifyEd25519 P publicKey signature data =
     catch_false
       (case jcsCanonicalize data of
          Inl e \<Rightarrow> Inl e
        | Inr canonicalJson \<Rightarrow>
            let message = Buffer_from_utf8 canonicalJson;
                signatureBuffer = Buffer_from_base64url signature
            in ed25519_verify P signatureBuffer message publicKey)"

definition verifySecp256k1 :: "crypto_lib \<Rightarrow> bytes \<Rightarrow> string \<Rightarrow> jsval \<Rightarrow> js_error + bool" where
  "verifySecp256k1 P publicKey signature data =
     catch_false
       (case jcsCanonicalize data of
          Inl e \<Rightarrow> Inl e
        | Inr canonicalJson \<Rightarrow>
            let messageHash = sha256_digest P (Buffer_from_utf8 canonicalJson);
                signatureBuffer = Buffer_from_base64url signature
            in secp256k1_verify P signatureBuffer messageHash publicKey)"

section \<open>Key pairs and the DID document (\<^verbatim>\<open>anp-key-generator.ts\<close>)\<close>

datatype KeyType = ED25519 | SECP256K1 | X25519

definition KeyType_value :: "KeyType \<Rightarrow> string" where
  "KeyType_value k =
     (case k of
        ED25519 \<Rightarrow> ''Ed25519VerificationKey2020''
      | SECP256K1 \<Rightarrow> ''EcdsaSecp256k1VerificationKey2019''
      | X25519 \<Rightarrow> ''X25519KeyAgreementKey2019'')"

record PublicKeyJWK =
  jwk_crv :: string
  jwk_x :: "string option"
  jwk_y :: "string option"
  jwk_kty :: string
  jwk_kid :: string

record VerificationMethod =
  vm_id :: string
  vm_type :: string
  vm_controller :: string
  publicKeyJwk :: "PublicKeyJWK option"
  publicKeyMultibase :: "string option"

text \<open>
  An entry of \<^verbatim>\<open>authentication\<close>, \<^verbatim>\<open>keyAgreement\<close> or \<^verbatim>\<open>humanAuthorization\<close> has the type
  \<^verbatim>\<open>string | VerificationMethod\<close>: a reference by id, or the method object itself.
\<close>

datatype vm_entry = Ref string | Embedded VerificationMethod

record Service =
  svc_id :: string
  svc_type :: string
  serviceEndpoint :: string
  svc_description :: "string option"

record DIDDocument =
  doc_context :: "string list"
  doc_id :: string
  verificationMethod :: "VerificationMethod list option"
  authentication :: "vm_entry list"
  keyAgreement :: "vm_entry list option"
  humanAuthorization :: "vm_entry list option"
  service :: "Service list option"

text \<open>
  The fields of \<^verbatim>\<open>KeyPairResult\<close> are \<^verbatim>\<open>did_document\<close>, \<^verbatim>\<open>private_key\<close> and \<^verbatim>\<open>did\<close>.
  \<^verbatim>\<open>did_document\<close> is the text \<^verbatim>\<open>JSON.stringify(didDocument, null, 2)\<close>, which the
  configuration class reads back with \<^verbatim>\<open>JSON.parse\<close>. The document holds strings, arrays
  and plain objects only, on which reading back what was written gives the same value;
  the text is modelled by the document it stands for.
\<close>

datatype json_text = JSON_text DIDDocument

fun JSON_parse :: "json_text \<Rightarrow> DIDDocument" where
  "JSON_parse (JSON_text d) = d"

record KeyPairResult =
  kpr_did_document :: json_text
  kpr_private_key :: string
  kpr_did :: string

record RawKeyPair =
  kp_privateKey :: bytes
  kp_publicKey :: bytes

record ANPKeyGenerator =
  domain :: string
  path :: "string option"

definition generateDID :: "ANPKeyGenerator \<Rightarrow> string" where
  "generateDID gen =
     (if truthy (path gen)
      then ''did:wba:'' @ domain gen @ '':'' @ (case path gen of Some p \<Rightarrow> p | None \<Rightarrow> [])
      else ''did:wba:'' @ domain gen)"

definition generateNonce :: "nat \<Rightarrow> rng \<Rightarrow> string \<times> rng" where
  "generateNonce len g = (let (bs, g') = randomBytes len g in (toString_base64url bs, g'))"

definition generateEd25519KeyPair :: "crypto_lib \<Rightarrow> rng \<Rightarrow> (js_error + RawKeyPair) \<times> rng" where
  "generateEd25519KeyPair P g =
     (let (privateKey, g') = ed25519_randomPrivateKey P g in
      case ed25519_getPublicKey P privateKey of
        Inl e \<Rightarrow> (Inl e, g')
      | Inr publicKey \<Rightarrow> (Inr \<lparr>kp_privateKey = privateKey, kp_publicKey = publicKey\<rparr>, g'))"

definition generateSecp256k1KeyPair :: "crypto_lib \<Rightarrow> rng \<Rightarrow> (js_error + RawKeyPair) \<times> rng" where
  "generateSecp256k1KeyPair P g =
     (let (privateKey, g') = secp256k1_randomPrivateKey P g in
      case secp256k1_getPublicKey P privateKey of
        Inl e \<Rightarrow> (Inl e, g')
      | Inr publicKey \<Rightarrow> (Inr \<lparr>kp_privateKey = privateKey, kp_publicKey = publicKey\<rparr>, g'))"

definition encodeMultibase :: "bytes \<Rightarrow> string" where
  "encodeMultibase publicKey = (let base58 = bs58_encode publicKey in CHR ''z'' # base58)"

text \<open>\<^verbatim>\<open>a.slice(i, j)\<close> for indices that are not negative.\<close>

definition slice :: "nat \<Rightarrow> nat \<Rightarrow> 'a list \<Rightarrow> 'a list" where
  "slice i j xs = take (j - i) (drop i xs)"

text \<open>
  \<^verbatim>\<open>base64url.encode\<close> of a buffer: its base64 text with the padding removed and
  \<^verbatim>\<open>+\<close>, \<^verbatim>\<open>/\<close> replaced by \<^verbatim>\<open>-\<close>, \<^verbatim>\<open>_\<close>.
\<close>

definition base64url_encode :: "bytes \<Rightarrow> string" where
  "base64url_encode bs = toString_base64url bs"

definition generateJWK :: "bytes \<Rightarrow> KeyType \<Rightarrow> rng \<Rightarrow> PublicKeyJWK \<times> rng" where
  "generateJWK publicKey keyType g =
     (let (kid, g') = generateNonce 16 g in
      if keyType = SECP256K1 then
        (let x = slice 1 33 publicKey;
             y = slice 33 65 publicKey
         in (\<lparr>jwk_crv = ''secp256k1'', jwk_x = Some (base64url_encode x),
              jwk_y = Some (base64url_encode y), jwk_kty = ''EC'', jwk_kid = kid\<rparr>, g'))
      else (\<lparr>jwk_crv = ''Ed25519'', jwk_x = None, jwk_y = None,
              jwk_kty = ''OKP'', jwk_kid = kid\<rparr>, g'))"

function chunks :: "nat \<Rightarrow> 'a list \<Rightarrow> 'a list list" where
  "chunks n xs = (if n = 0 \<or> xs = [] then [] else take n xs # chunks n (drop n xs))"
  by pat_completeness auto
termination
  by (relation "measure (\<lambda>(n, xs). length xs)") auto

definition generatePEMPrivateKey :: "bytes \<Rightarrow> KeyType \<Rightarrow> string" where
  "generatePEMPrivateKey privateKey keyType =
     (let (header, footer) =
            (if keyType = ED25519
             then (''-----BEGIN ED25519 PRIVATE KEY-----'', ''-----END ED25519 PRIVATE KEY-----'')
             else if keyType = SECP256K1
             then (''-----BEGIN SECP256K1 PRIVATE KEY-----'',
                   ''-----END SECP256K1 PRIVATE KEY-----'')
             else (''-----BEGIN '' @ KeyType_value keyType @ '' PRIVATE KEY-----'',
                   ''-----END '' @ KeyType_value keyType @ '' PRIVATE KEY-----''));
          base64Key = toString_base64 privateKey;
          formattedKey = (case chunks 64 base64Key of
                            [] \<Rightarrow> base64Key
                          | c # cs \<Rightarrow> join [CHR 0x0A] (c # cs))
      in header @ [CHR 0x0A] @ formattedKey @ [CHR 0x0A] @ footer)"

text \<open>The message of the error for a key type that is not supported, in UTF-8.\<close>

definition unsupported_key_type :: string where
  "unsupported_key_type =
     [CHR 0xE4, CHR 0xB8, CHR 0x8D, CHR 0xE6, CHR 0x94, CHR 0xAF, CHR 0xE6, CHR 0x8C,
      CHR 0x81, CHR 0xE7, CHR 0x9A, CHR 0x84, CHR 0xE5, CHR 0xAF, CHR 0x86, CHR 0xE9,
      CHR 0x92, CHR 0xA5, CHR 0xE7, CHR 0xB1, CHR 0xBB, CHR 0xE5, CHR 0x9E, CHR 0x8B,
      CHR 0x3A, CHR 0x20]"

text \<open>
  The branch of \<^verbatim>\<open>generateKeyPair\<close> on the key type. It yields the primary key pair
  and the four lists \<^verbatim>\<open>verificationMethods\<close>, \<^verbatim>\<open>authenticationMethods\<close>,
  \<^verbatim>\<open>keyAgreementMethods\<close> and \<^verbatim>\<open>humanAuthorizationMethods\<close>.
\<close>

type_synonym key_methods =
  "RawKeyPair \<times> VerificationMethod list \<times> vm_entry list \<times> vm_entry list \<times> vm_entry list"

definition generateKeyPair_methods ::
  "crypto_lib \<Rightarrow> string \<Rightarrow> string \<Rightarrow> KeyType \<Rightarrow> rng \<Rightarrow> (js_error + key_methods) \<times> rng" where
  "generateKeyPair_methods P did keyId keyType g1 =
     (if keyType = ED25519 then
        (case generateEd25519KeyPair P g1 of
           (Inl e, g2) \<Rightarrow> (Inl e, g2)
         | (Inr keyPair, g2) \<Rightarrow>
             let authKeyId = did @ ''#'' @ keyId;
                 authMethod = \<lparr>vm_id = authKeyId, vm_type = KeyType_value ED25519,
                    vm_controller = did, publicKeyJwk = None,
                    publicKeyMultibase = Some (encodeMultibase (kp_publicKey keyPair))\<rparr>
             in
             (case generateEd25519KeyPair P g2 of
                (Inl e, g3) \<Rightarrow> (Inl e, g3)
              | (Inr keyAgreementPair, g3) \<Rightarrow>
                  let keyAgreementId = did @ ''#key-2'';
                      keyAgreementMethod = \<lparr>vm_id = keyAgreementId,
                         vm_type = KeyType_value X25519, vm_controller = did,
                         publicKeyJwk = None,
                         publicKeyMultibase =
                           Some (encodeMultibase (kp_publicKey keyAgreementPair))\<rparr>
                  in
                  (case generateEd25519KeyPair P g3 of
                     (Inl e, g4) \<Rightarrow> (Inl e, g4)
                   | (Inr humanAuthPair, g4) \<Rightarrow>
                       let humanAuthId = did @ ''#key-3'';
                           humanAuthMethod = \<lparr>vm_id = humanAuthId,
                              vm_type = KeyType_value ED25519, vm_controller = did,
                              publicKeyJwk = None,
                              publicKeyMultibase =
                                Some (encodeMultibase (kp_publicKey humanAuthPair))\<rparr>
                       in (Inr (keyPair,
                                [authMethod, keyAgreementMethod, humanAuthMethod],
                                [Ref authKeyId],
                                [Embedded keyAgreementMethod],
                                [Ref authKeyId, Embedded humanAuthMethod]), g4))))
      else if keyType = SECP256K1 then
        (case generateSecp256k1KeyPair P g1 of
           (Inl e, g2) \<Rightarrow> (Inl e, g2)
         | (Inr keyPair, g2) \<Rightarrow>
             let (jwk, g3) = generateJWK (kp_publicKey keyPair) keyType g2;
                 authKeyId = did @ ''#'' @ keyId;
                 authMethod = \<lparr>vm_id = authKeyId, vm_type = KeyType_value SECP256K1,
                    vm_controller = did, publicKeyJwk = Some jwk,
                    publicKeyMultibase = None\<rparr>
             in
             (case generateEd25519KeyPair P g3 of
                (Inl e, g4) \<Rightarrow> (Inl e, g4)
              | (Inr keyAgreementPair, g4) \<Rightarrow>
                  let keyAgreementId = did @ ''#key-2'';
                      keyAgreementMethod = \<lparr>vm_id = keyAgreementId,
                         vm_type = KeyType_value X25519, vm_controller = did,
                         publicKeyJwk = None,
                         publicKeyMultibase =
                           Some (encodeMultibase (kp_publicKey keyAgreementPair))\<rparr>
                  in
                  (case generateEd25519KeyPair P g4 of
                     (Inl e, g5) \<Rightarrow> (Inl e, g5)
                   | (Inr humanAuthPair, g5) \<Rightarrow>
                       let humanAuthId = did @ ''#key-3'';
                           humanAuthMethod = \<lparr>vm_id = humanAuthId,
                              vm_type = KeyType_value ED25519, vm_controller = did,
                              publicKeyJwk = None,
                              publicKeyMultibase =
                                Some (encodeMultibase (kp_publicKey humanAuthPair))\<rparr>
                       in (Inr (keyPair,
                                [authMethod, keyAgreementMethod, humanAuthMethod],
                                [Ref authKeyId],
                                [Embedded keyAgreementMethod],
                                [Ref authKeyId, Embedded humanAuthMethod]), g5))))
      else (Inl (Error (unsupported_key_type @ KeyType_value keyType)), g1))"

definition did_contexts :: "string list" where
  "did_contexts =
     [''https://www.w3.org/ns/did/v1'',
      ''https://w3id.org/security/suites/jws-2020/v1'',
      ''https://w3id.org/security/suites/secp256k1-2019/v1'',
      ''https://w3id.org/security/suites/ed25519-2020/v1'',
      ''https://w3id.org/security/suites/x25519-2019/v1'']"

definition generateKeyPair ::
  "crypto_lib \<Rightarrow> ANPKeyGenerator \<Rightarrow> KeyType \<Rightarrow> rng \<Rightarrow> (js_error + KeyPairResult) \<times> rng" where
  "generateKeyPair P gen keyType g =
     (let did = generateDID gen;
          (keyId, g1) = generateNonce 16 g
      in
      case generateKeyPair_methods P did keyId keyType g1 of
        (Inl e, g') \<Rightarrow> (Inl e, g')
      | (Inr (keyPair, verificationMethods, authenticationMethods, keyAgreementMethods,
              humanAuthorizationMethods), g') \<Rightarrow>
          let didDocument = \<lparr>doc_context = did_contexts, doc_id = did,
                 verificationMethod = Some verificationMethods,
                 authentication = authenticationMethods,
                 keyAgreement = Some keyAgreementMethods,
                 humanAuthorization = Some humanAuthorizationMethods,
                 service = Some [\<lparr>svc_id = did @ ''#agent-description'',
                    svc_type = ''AgentDescription'',
                    serviceEndpoint = ''https://'' @ domain gen @ ''/agents/''
                      @ (if truthy (path gen)
                         then (case path gen of Some p \<Rightarrow> p | None \<Rightarrow> [])
                         else ''default'') @ ''/ad.json'',
                    svc_description = None\<rparr>]\<rparr>;
              privateKeyPem = generatePEMPrivateKey (kp_privateKey keyPair) keyType
          in (Inr \<lparr>kpr_did_document = JSON_text didDocument,
                    kpr_private_key = privateKeyPem, kpr_did = did\<rparr>, g'))"

section \<open>The configuration class (\<^verbatim>\<open>did-auto-config.ts\<close>)\<close>

datatype InterfaceType = NaturalLanguageInterface | StructuredInterface

definition InterfaceType_value :: "InterfaceType \<Rightarrow> string" where
  "InterfaceType_value t =
     (case t of NaturalLanguageInterface \<Rightarrow> ''NaturalLanguageInterface''
              | StructuredInterface \<Rightarrow> ''StructuredInterface'')"

datatype LogLevel = Log_debug | Log_info | Log_warn | Log_error

record AgentInterface =
  iface_type :: InterfaceType
  iface_description :: string
  iface_url :: "string option"

record ServiceEndpoint =
  ep_id :: string
  ep_type :: string
  ep_serviceEndpoint :: string
  ep_description :: "string option"

text \<open>
  \<^verbatim>\<open>DIDAutoConfigOptions\<close>: every field is optional; \<open>None\<close> is a field the caller left
  out. The constructor fills the defaults in (\<^verbatim>\<open>Required<DIDAutoConfigOptions>\<close>).
\<close>

record DIDAutoConfigOptions =
  in_autoDID :: "bool option"
  in_keyType :: "KeyType option"
  in_agentName :: "string option"
  in_agentDescription :: "string option"
  in_agentVersion :: "string option"
  in_interfaces :: "AgentInterface list option"
  in_serviceEndpoints :: "ServiceEndpoint list option"
  in_logLevel :: "LogLevel option"

record RequiredOptions =
  autoDID :: bool
  keyType :: KeyType
  agentName :: string
  agentDescription_text :: string
  agentVersion :: string
  interfaces :: "AgentInterface list"
  serviceEndpoints :: "ServiceEndpoint list"
  logLevel :: LogLevel

record InterfaceEntry =
  ie_type :: string
  ie_url :: string
  ie_description :: string

text \<open>
  The agent description document; its \<^verbatim>\<open>@context\<close> and \<^verbatim>\<open>@type\<close> are constants. The
  capabilities are pairs of name and description, the protocols triples of name,
  version and description.
\<close>

record AgentDescriptionDoc =
  ad_name :: string
  ad_did :: "string option"
  ad_description :: string
  ad_version :: string
  ad_created :: string
  ad_interfaces :: "InterfaceEntry list"
  ad_capabilities :: "(string \<times> string) list"
  ad_supportedProtocols :: "(string \<times> string \<times> string) list"

record DIDConfig =
  cfg_did :: string
  cfg_privateKey :: string
  cfg_publicKey :: string
  cfg_didDocument :: DIDDocument
  cfg_agentDescription :: AgentDescriptionDoc
  cfg_keyType :: KeyType

text \<open>
  The object: its options and the five private fields, each \<^verbatim>\<open>null\<close> (\<open>None\<close>) until
  it is set. A method takes the object and returns it as the method leaves it, also
  when it throws.
\<close>

record DIDAutoConfig =
  options :: RequiredOptions
  autoDid :: "string option"
  privateKey :: "string option"
  publicKey :: "string option"
  didDocument :: "DIDDocument option"
  agentDescription :: "AgentDescriptionDoc option"

definition or_default :: "'a option \<Rightarrow> 'a \<Rightarrow> 'a" where
  "or_default v d = (case v of None \<Rightarrow> d | Some w \<Rightarrow> w)"

definition DIDAutoConfig_new :: "DIDAutoConfigOptions \<Rightarrow> DIDAutoConfig" where
  "DIDAutoConfig_new opts =
     \<lparr>options =
        \<lparr>autoDID = or_default (in_autoDID opts) True,
         keyType = or_default (in_keyType opts) ED25519,
         agentName = or_default (in_agentName opts) ''Auto-Configured ANP Agent'',
         agentDescription_text = or_default (in_agentDescription opts)
            ''Automatically configured ANP agent via SDK'',
         agentVersion = or_default (in_agentVersion opts) ''1.0.0'',
         interfaces = or_default (in_interfaces opts)
            [\<lparr>iface_type = NaturalLanguageInterface,
              iface_description = ''Auto-configured natural language interface'',
              iface_url = None\<rparr>],
         serviceEndpoints = or_default (in_serviceEndpoints opts) [],
         logLevel = or_default (in_logLevel opts) Log_info\<rparr>,
      autoDid = None, privateKey = None, publicKey = None, didDocument = None,
      agentDescription = None\<rparr>"

text \<open>
  \<open>host\<close> is the parameter \<^verbatim>\<open>domain\<close>. The port is a number; \<open>0\<close> is falsy, as a missing
  port is.
\<close>

definition fullDomain :: "string \<Rightarrow> nat option \<Rightarrow> string" where
  "fullDomain host port =
     (case port of
        None \<Rightarrow> host
      | Some p \<Rightarrow> if p \<noteq> 0 then host @ '':'' @ show_nat p else host)"

definition generateDIDAndKeys ::
  "crypto_lib \<Rightarrow> string \<Rightarrow> nat option \<Rightarrow> DIDAutoConfig \<Rightarrow> rng
     \<Rightarrow> (js_error + unit) \<times> DIDAutoConfig \<times> rng" where
  "generateDIDAndKeys P host port this g =
     (let generator = \<lparr>domain = fullDomain host port, path = Some ''auto-agent''\<rparr>
      in
      case generateKeyPair P generator (keyType (options this)) g of
        (Inl e, g') \<Rightarrow> (Inl e, this, g')
      | (Inr keyPair, g') \<Rightarrow>
          let doc = JSON_parse (kpr_did_document keyPair);
              this1 = this\<lparr>autoDid := Some (kpr_did keyPair),
                            privateKey := Some (kpr_private_key keyPair),
                            didDocument := Some doc\<rparr>;
              this2 = (case verificationMethod doc of
                         Some (vm # rest) \<Rightarrow> this1\<lparr>publicKey := publicKeyMultibase vm\<rparr>
                       | _ \<Rightarrow> this1)
          in (Inr (), this2, g'))"

definition endpoint_entry :: "ServiceEndpoint \<Rightarrow> Service" where
  "endpoint_entry endpoint =
     \<lparr>svc_id = ep_id endpoint, svc_type = ep_type endpoint,
      serviceEndpoint = ep_serviceEndpoint endpoint,
      svc_description = ep_description endpoint\<rparr>"

definition default_service :: Service where
  "default_service =
     \<lparr>svc_id = ''default'', svc_type = ''ANPAgentService'',
      serviceEndpoint = ''http://localhost:3000/anp/api'',
      svc_description = Some ''Default ANP agent service endpoint''\<rparr>"

definition configureDIDDocument :: "DIDAutoConfig \<Rightarrow> (js_error + unit) \<times> DIDAutoConfig" where
  "configureDIDDocument this =
     (case didDocument this of
        None \<Rightarrow> (Inl (Error ''DID document not generated yet''), this)
      | Some doc \<Rightarrow>
          let eps = serviceEndpoints (options this);
              doc1 = (if length eps > 0
                      then doc\<lparr>service := Some (map endpoint_entry eps)\<rparr> else doc);
              doc2 = (case service doc1 of
                        None \<Rightarrow> doc1\<lparr>service := Some []\<rparr>
                      | Some xs \<Rightarrow> doc1);
              defaultEndpoint = find (\<lambda>ep. ep_id ep = ''default'') eps;
              doc3 = (if defaultEndpoint = None \<and> length eps = 0
                      then doc2\<lparr>service :=
                             map_option (\<lambda>xs. xs @ [default_service]) (service doc2)\<rparr>
                      else doc2)
          in (Inr (), this\<lparr>didDocument := Some doc3\<rparr>))"

definition getDefaultInterfaceUrl :: "DIDAutoConfig \<Rightarrow> string" where
  "getDefaultInterfaceUrl this =
     (case didDocument this of
        Some doc \<Rightarrow>
          (case service doc of
             Some (s # rest) \<Rightarrow> serviceEndpoint s
           | _ \<Rightarrow> ''http://localhost:3000/anp/api'')
      | None \<Rightarrow> ''http://localhost:3000/anp/api'')"

text \<open>\<open>now\<close> is the text of \<^verbatim>\<open>new Date().toISOString()\<close>.\<close>

definition generateAgentDescription :: "string \<Rightarrow> DIDAutoConfig \<Rightarrow> DIDAutoConfig" where
  "generateAgentDescription now this =
     this\<lparr>agentDescription := Some
       \<lparr>ad_name = agentName (options this),
        ad_did = autoDid this,
        ad_description = agentDescription_text (options this),
        ad_version = agentVersion (options this),
        ad_created = now,
        ad_interfaces = map (\<lambda>iface.
           \<lparr>ie_type = ''ad:'' @ InterfaceType_value (iface_type iface),
            ie_url = (if truthy (iface_url iface)
                      then or_default (iface_url iface) []
                      else getDefaultInterfaceUrl this),
            ie_description = iface_description iface\<rparr>) (interfaces (options this)),
        ad_capabilities =
          [(''Natural Language Processing'',
            ''Process natural language requests and responses''),
           (''HTTP Communication'', ''Communicate via HTTP protocol'')],
        ad_supportedProtocols = [(''ANP'', ''1.0'', ''Agent Network Protocol'')]\<rparr>\<rparr>"

text \<open>\<^verbatim>\<open>findIndex\<close>: the first index whose element satisfies the test, or \<open>-1\<close>.\<close>

fun findIndex :: "('a \<Rightarrow> bool) \<Rightarrow> 'a list \<Rightarrow> int" where
  "findIndex p [] = - 1"
| "findIndex p (x # xs) =
     (if p x then 0 else (let i = findIndex p xs in if i < 0 then - 1 else i + 1))"

text \<open>The \<^verbatim>\<open>service\<close> array, a missing one read as the empty array the code puts there.\<close>

definition services_of :: "DIDDocument \<Rightarrow> Service list" where
  "services_of doc = (case service doc of None \<Rightarrow> [] | Some xs \<Rightarrow> xs)"

definition updateServiceEndpoint ::
  "ServiceEndpoint \<Rightarrow> DIDAutoConfig \<Rightarrow> (js_error + unit) \<times> DIDAutoConfig" where
  "updateServiceEndpoint endpoint this =
     (case didDocument this of
        None \<Rightarrow> (Inl (Error ''DID document not configured yet''), this)
      | Some doc \<Rightarrow>
          let services = services_of doc;
              existingIndex = findIndex (\<lambda>s. svc_id s = ep_id endpoint) services;
              services' = (if existingIndex \<ge> 0
                           then services[nat existingIndex := endpoint_entry endpoint]
                           else services @ [endpoint_entry endpoint])
          in (Inr (), this\<lparr>didDocument := Some (doc\<lparr>service := Some services'\<rparr>)\<rparr>))"

definition not_configured :: "string \<Rightarrow> js_error" where
  "not_configured what = Error (what @ '' not configured yet. Call autoSetup() first.'')"

definition getConfig :: "DIDAutoConfig \<Rightarrow> js_error + DIDConfig" where
  "getConfig this =
     (if \<not> truthy (autoDid this) \<or> \<not> truthy (privateKey this) \<or> \<not> truthy (publicKey this)
         \<or> didDocument this = None \<or> agentDescription this = None
      then Inl (not_configured ''DID'')
      else
        (case (autoDid this, privateKey this, publicKey this, didDocument this,
               agentDescription this) of
           (Some d, Some sk, Some pk, Some doc, Some ad) \<Rightarrow>
             Inr \<lparr>cfg_did = d, cfg_privateKey = sk, cfg_publicKey = pk,
                  cfg_didDocument = doc, cfg_agentDescription = ad,
                  cfg_keyType = keyType (options this)\<rparr>
         | _ \<Rightarrow> Inl (not_configured ''DID'')))"

definition getDID :: "DIDAutoConfig \<Rightarrow> js_error + string" where
  "getDID this =
     (case autoDid this of
        Some d \<Rightarrow> if d \<noteq> [] then Inr d else Inl (not_configured ''DID'')
      | None \<Rightarrow> Inl (not_configured ''DID''))"

definition getPrivateKey :: "DIDAutoConfig \<Rightarrow> js_error + string" where
  "getPrivateKey this =
     (case privateKey this of
        Some k \<Rightarrow> if k \<noteq> [] then Inr k else Inl (not_configured ''Private key'')
      | None \<Rightarrow> Inl (not_configured ''Private key''))"

definition getPublicKey :: "DIDAutoConfig \<Rightarrow> js_error + string" where
  "getPublicKey this =
     (case publicKey this of
        Some k \<Rightarrow> if k \<noteq> [] then Inr k else Inl (not_configured ''Public key'')
      | None \<Rightarrow> Inl (not_configured ''Public key''))"

definition getDIDDocument :: "DIDAutoConfig \<Rightarrow> js_error + DIDDocument" where
  "getDIDDocument this =
     (case didDocument this of
        Some doc \<Rightarrow> Inr doc
      | None \<Rightarrow> Inl (not_configured ''DID document''))"

definition getAgentDescription :: "DIDAutoConfig \<Rightarrow> js_error + AgentDescriptionDoc" where
  "getAgentDescription this =
     (case agentDescription this of
        Some ad \<Rightarrow> Inr ad
      | None \<Rightarrow> Inl (not_configured ''Agent description''))"

text \<open>
  \<^verbatim>\<open>autoSetup\<close>: the three steps, then \<^verbatim>\<open>getConfig\<close>. Its \<^verbatim>\<open>catch\<close> logs and throws the
  error again; writing to the log is not modelled.
\<close>

definition autoSetup ::
  "crypto_lib \<Rightarrow> string \<Rightarrow> string \<Rightarrow> nat option \<Rightarrow> DIDAutoConfig \<Rightarrow> rng
     \<Rightarrow> (js_error + DIDConfig) \<times> DIDAutoConfig \<times> rng" where
  "autoSetup P now host port this g =
     (case generateDIDAndKeys P host port this g of
        (Inl e, this1, g') \<Rightarrow> (Inl e, this1, g')
      | (Inr u, this1, g') \<Rightarrow>
          (case configureDIDDocument this1 of
             (Inl e, this2) \<Rightarrow> (Inl e, this2, g')
           | (Inr u, this2) \<Rightarrow>
               let this3 = generateAgentDescription now this2
               in (getConfig this3, this3, g')))"

section \<open>A stand-in for the libraries\<close>

text \<open>
  To run the model, the parameters need values. The stand-in has the interface of the
  real primitives, their key and signature lengths and their errors on a wrong length;
  it has none of their security. A public key is the private key with every byte
  incremented, a signature is the public key followed by 32 copies of the sum of the
  message bytes.
\<close>

definition test_tag :: "bytes \<Rightarrow> bytes \<Rightarrow> bytes" where
  "test_tag message pk = pk @ replicate 32 (sum_list message)"

definition test_lib :: crypto_lib where
  "test_lib =
     \<lparr>ed25519_randomPrivateKey = randomBytes 32,
      ed25519_getPublicKey = (\<lambda>sk.
         if length sk = 32 then Inr (map (\<lambda>b. b + 1) sk)
         else Inl (Error ''Expected 32 bytes of private key'')),
      ed25519_sign = (\<lambda>message sk.
         if length sk = 32 then Inr (test_tag message (map (\<lambda>b. b + 1) sk))
         else Inl (Error ''Expected 32 bytes of private key'')),
      ed25519_verify = (\<lambda>signature message pk.
         if length signature = 64 \<and> length pk = 32
         then Inr (signature = test_tag message pk)
         else Inl (Error ''Expected 64 bytes of signature and 32 bytes of public key'')),
      secp256k1_randomPrivateKey = randomBytes 32,
      secp256k1_getPublicKey = (\<lambda>sk.
         if length sk = 32 then Inr (4 # sk @ map (\<lambda>b. b + 1) sk)
         else Inl (Error ''Expected 32 bytes of private key'')),
      secp256k1_sign = (\<lambda>msgHash sk.
         if length sk = 32 then Inr (test_tag msgHash sk)
         else Inl (Error ''Expected 32 bytes of private key'')),
      secp256k1_verify = (\<lambda>signature msgHash pk.
         if length signature = 64 \<and> length pk = 65
         then Inr (signature = test_tag msgHash (slice 1 33 pk))
         else Inl (Error ''Expected 64 bytes of signature and 65 bytes of public key'')),
      sha256_digest = (\<lambda>message. replicate 32 (sum_list message))\<rparr>"


definition test_rng :: rng where
  "test_rng = (\<lambda>i. of_nat (7 * i + 1))"

definition test_sk :: bytes where
  "test_sk = fst (randomBytes 32 test_rng)"

definition test_pk :: bytes where
  "test_pk = map (\<lambda>b. b + 1) test_sk"

definition test_secp_pk :: bytes where
  "test_secp_pk = 4 # test_sk @ map (\<lambda>b. b + 1) test_sk"

definition test_payload :: SignatureData where
  "test_payload =
     \<lparr>sd_nonce = ''n1'', sd_timestamp = ''2024-01-01T00:00:00.000Z'',
      sd_service = ''example.com'', sd_did = ''did:wba:example.com:user:alice''\<rparr>"

definition test_gen :: ANPKeyGenerator where
  "test_gen = \<lparr>domain = ''example.com'', path = Some ''user:alice''\<rparr>"

definition test_gen_empty_path :: ANPKeyGenerator where
  "test_gen_empty_path = \<lparr>domain = ''example.com'', path = Some []\<rparr>"

text \<open>A configured object with two services, and two endpoints to put into it.\<close>

definition test_options :: DIDAutoConfigOptions where
  "test_options =
     \<lparr>in_autoDID = None, in_keyType = None, in_agentName = None,
      in_agentDescription = None, in_agentVersion = None, in_interfaces = None,
      in_serviceEndpoints = None, in_logLevel = None\<rparr>"

definition test_document :: DIDDocument where
  "test_document =
     \<lparr>doc_context = did_contexts, doc_id = ''did:wba:localhost:3000:auto-agent'',
      verificationMethod = Some [], authentication = [], keyAgreement = Some [],
      humanAuthorization = Some [],
      service = Some [\<lparr>svc_id = ''did:wba:localhost:3000:auto-agent#agent-description'',
                        svc_type = ''AgentDescription'',
                        serviceEndpoint = ''https://localhost:3000/agents/auto-agent/ad.json'',
                        svc_description = None\<rparr>,
                      default_service]\<rparr>"

definition test_config :: DIDAutoConfig where
  "test_config = (DIDAutoConfig_new test_options)\<lparr>didDocument := Some test_document\<rparr>"

definition test_endpoint :: ServiceEndpoint where
  "test_endpoint =
     \<lparr>ep_id = ''default'', ep_type = ''ANPAgentService'',
      ep_serviceEndpoint = ''https://example.com/anp/api'', ep_description = None\<rparr>"

definition test_endpoint_new :: ServiceEndpoint where
  "test_endpoint_new =
     \<lparr>ep_id = ''messaging'', ep_type = ''MessagingService'',
      ep_serviceEndpoint = ''https://example.com/anp/messages'', ep_description = None\<rparr>"

text \<open>The canonical form of the test payload.\<close>

definition test_canonical :: string where
  \<open>test_canonical = ''{"did":"did:wba:example.com:user:alice","nonce":"n1","service":"example.com","timestamp":"2024-01-01T00:00:00.000Z"}''\<close>

section \<open>Base64: decoding what was encoded\<close>

lemma unat_byte: "unat (a :: 8 word) < 256"
  using unsigned_less [of a] by simp

lemma sextet_1: "(y::nat) < 256 \<Longrightarrow> x div 4 * 4 + (x mod 4 * 16 + y div 16) div 16 = x"
proof -
  assume "y < 256"
  then have "y div 16 < 16" by simp
  then have "(x mod 4 * 16 + y div 16) div 16 = x mod 4" by simp
  then show ?thesis by simp
qed

lemma sextet_2:
  assumes "(y::nat) < 256" and "(z::nat) < 256"
  shows "(x mod 4 * 16 + y div 16) mod 16 * 16 + (y mod 16 * 4 + z div 64) div 4 = y"
proof -
  from assms have "z div 64 < 4" by simp
  then have a: "(y mod 16 * 4 + z div 64) div 4 = y mod 16" by simp
  have b: "(x mod 4 * 16 + y div 16) mod 16 = (y div 16) mod 16" by simp
  from assms have "y div 16 < 16" by simp
  then have "(y div 16) mod 16 = y div 16" by simp
  with a b show ?thesis by simp
qed

lemma sextet_3: "(z::nat) < 256 \<Longrightarrow> (y mod 16 * 4 + z div 64) mod 4 * 64 + z mod 64 = z"
proof -
  assume "z < 256"
  then have "z div 64 < 4" by simp
  then have "(y mod 16 * 4 + z div 64) mod 4 = z div 64" by simp
  then show ?thesis by simp
qed

lemma unbase64_b64_char: "n < 64 \<Longrightarrow> unbase64 (b64_char url n) = Some n"
  by (auto simp: unbase64_def b64_char_def Let_def)

lemma b64_char_not_pad: "n < 64 \<Longrightarrow> b64_char url n \<noteq> CHR ''=''"
proof
  assume "n < 64" and "b64_char url n = CHR ''=''"
  then have "unbase64 (CHR ''='') = Some n" using unbase64_b64_char [of n url] by simp
  then show False by (simp add: unbase64_def)
qed

lemma sextets_bound: "\<forall>n \<in> set (sextets bs). n < 64"
proof (induction bs rule: sextets.induct)
  case (1 a b c r)
  have "unat a < 256" "unat b < 256" "unat c < 256" by (rule unat_byte)+
  then show ?case using 1 by auto
next
  case (2 a b)
  have "unat a < 256" "unat b < 256" by (rule unat_byte)+
  then show ?case by auto
next
  case (3 a)
  have "unat a < 256" by (rule unat_byte)
  then show ?case by auto
qed simp

lemma unsextets_sextets: "unsextets (sextets bs) = bs"
proof (induction bs rule: sextets.induct)
  case (1 a b c r)
  have "unat a < 256" "unat b < 256" "unat c < 256" by (rule unat_byte)+
  then show ?case using 1 by (simp add: sextet_1 sextet_2 sextet_3)
next
  case (2 a b)
  have "unat a < 256" "unat b < 256" by (rule unat_byte)+
  then show ?case using sextet_2 [of "unat b" 0 "unat a"] by (simp add: sextet_1)
next
  case (3 a)
  show ?case using sextet_1 [of 0 "unat a"] by simp
qed simp

lemma map_filter_unbase64:
  "\<forall>n \<in> set ns. n < 64 \<Longrightarrow> List.map_filter unbase64 (map (b64_char url) ns) = ns"
  by (induction ns) (simp_all add: unbase64_b64_char)

lemma takeWhile_b64:
  "\<forall>n \<in> set ns. n < 64 \<Longrightarrow>
   takeWhile (\<lambda>c. c \<noteq> CHR ''='') (map (b64_char url) ns) = map (b64_char url) ns"
  by (induction ns) (simp_all add: b64_char_not_pad)

text \<open>A string of ASCII characters has one code unit for each character.\<close>

lemma unat_of_char_unit: "unat (of_char c :: 16 word) = of_char c"
proof -
  have "(of_char c :: 16 word) = of_nat (of_char c)"
    by (simp only: of_nat_of_char)
  then have "unat (of_char c :: 16 word) = (of_char c :: nat) mod 65536"
    by (simp only: unat_of_nat) simp
  moreover have "(of_char c :: nat) < 256"
    using of_char_mod_256 [of c, where ?'a = nat] by (metis mod_less_divisor zero_less_numeral)
  ultimately show ?thesis by simp
qed

lemma code_units_ascii:
  "list_all (\<lambda>c. (of_char c :: nat) < 128) s \<Longrightarrow> code_units s = map of_char s"
  by (induction s) (simp_all add: Let_def of_nat_of_char)

lemma low_bytes_ascii:
  assumes "list_all (\<lambda>c. (of_char c :: nat) < 128) s"
  shows "map (\<lambda>u. char_of (unat u)) (code_units s) = s"
  unfolding code_units_ascii [OF assms] by (simp add: unat_of_char_unit o_def)

lemma Buffer_from_base64url_ascii:
  "list_all (\<lambda>c. (of_char c :: nat) < 128) s \<Longrightarrow>
   Buffer_from_base64url s =
     unsextets (List.map_filter unbase64 (takeWhile (\<lambda>c. c \<noteq> CHR ''='') s))"
  by (simp add: Buffer_from_base64url_def low_bytes_ascii)

lemma b64_char_ascii: "n < 64 \<Longrightarrow> (of_char (b64_char url n) :: nat) < 128"
  by (auto simp: b64_char_def)

lemma toString_base64url_ascii:
  "list_all (\<lambda>c. (of_char c :: nat) < 128) (toString_base64url bs)"
  using sextets_bound [of bs] by (simp add: toString_base64url_def list_all_iff b64_char_ascii)

lemma Buffer_from_base64url_toString: "Buffer_from_base64url (toString_base64url bs) = bs"
  unfolding Buffer_from_base64url_ascii [OF toString_base64url_ascii]
  by (simp add: toString_base64url_def takeWhile_b64 map_filter_unbase64 sextets_bound
      unsextets_sextets)

text \<open>ASCII strings are ordered by their code units as they are by their characters.\<close>

lemma of_char_unit_less: "(of_char c :: 16 word) < of_char d \<longleftrightarrow> c < d"
  by (simp add: word_less_nat_alt unat_of_char_unit less_char_def)

lemma of_char_unit_eq: "(of_char c :: 16 word) = of_char d \<longleftrightarrow> c = d"
proof
  assume "(of_char c :: 16 word) = of_char d"
  then have "unat (of_char c :: 16 word) = unat (of_char d :: 16 word)" by simp
  then have "(of_char c :: nat) = of_char d" by (simp only: unat_of_char_unit)
  then show "c = d" by simp
qed simp

lemma map_of_char_le:
  "map (of_char :: char \<Rightarrow> 16 word) a \<le> map of_char b \<longleftrightarrow> a \<le> b"
proof (induction a arbitrary: b)
  case Nil
  then show ?case by simp
next
  case (Cons c a)
  then show ?case
    by (cases b) (simp_all add: of_char_unit_less of_char_unit_eq)
qed

lemma insort_key_code_units_ascii:
  assumes "list_all (\<lambda>c. (of_char c :: nat) < 128) k"
    and "list_all (list_all (\<lambda>c. (of_char c :: nat) < 128)) ks"
  shows "insort_key code_units k ks = insort k ks"
  using assms by (induction ks) (simp_all add: code_units_ascii map_of_char_le)

lemma sort_key_code_units_ascii:
  "list_all (list_all (\<lambda>c. (of_char c :: nat) < 128)) ks \<Longrightarrow> sort_key code_units ks = sort ks"
proof (induction ks)
  case Nil
  then show ?case by simp
next
  case (Cons k ks)
  then have "list_all (list_all (\<lambda>c. (of_char c :: nat) < 128)) (sort ks)"
    by (simp add: list_all_iff)
  with Cons show ?case
    by (simp add: sort_key_simps insort_key_code_units_ascii)
qed

section \<open>Running the stand-in on a payload\<close>

lemma replicate_32: "replicate 32 x = [x,x,x,x,x,x,x,x,x,x,x,x,x,x,x,x,x,x,x,x,x,x,x,x,x,x,x,x,x,x,x,x]"
  by (simp add: numeral_eq_Suc)

lemma test_sk_eq: "test_sk = [1, 8, 15, 22, 29, 36, 43, 50, 57, 64, 71, 78, 85, 92, 99, 106, 113, 120,
  127, 134, 141, 148, 155, 162, 169, 176, 183, 190, 197, 204, 211, 218]"
  by (simp add: test_sk_def randomBytes_def test_rng_def upt_rec)

lemma length_test_sk: "length test_sk = 32"
  by (simp add: test_sk_def randomBytes_def)

lemma test_canon: "jcsCanonicalize (SignatureData_obj test_payload) = Inr test_canonical"
  by (simp add: jcsCanonicalize_def Object_keys_def JSON_stringify_def List.map_filter_def
      sort_key_code_units_ascii
      quoteJSON_def escape_char_def SignatureData_obj_def test_payload_def test_canonical_def)

lemma test_sig: "signEd25519 test_lib test_sk (SignatureData_obj test_payload) = Inr ''AgkQFx4lLDM6QUhPVl1ka3J5gIeOlZyjqrG4v8bN1NvS0tLS0tLS0tLS0tLS0tLS0tLS0tLS0tLS0tLS0tLS0g''"
  by (simp add: signEd25519_def test_canon test_canonical_def test_lib_def test_sk_eq
      test_tag_def Buffer_from_utf8_def toString_base64url_def b64_char_def char_of_eq_iff
      replicate_32)

lemma test_sig_secp: "signSecp256k1 test_lib test_sk (SignatureData_obj test_payload) = Inr ''AQgPFh0kKzI5QEdOVVxjanF4f4aNlJuiqbC3vsXM09pAQEBAQEBAQEBAQEBAQEBAQEBAQEBAQEBAQEBAQEBAQA''"
  by (simp add: signSecp256k1_def test_canon test_canonical_def test_lib_def test_sk_eq
      test_tag_def Buffer_from_utf8_def toString_base64url_def b64_char_def char_of_eq_iff
      replicate_32)

lemma catch_false_Inr: "\<exists>b. catch_false x = Inr b"
  by (cases x) (auto simp: catch_false_def)

lemma catch_false_cases: "catch_false x = Inr True \<or> catch_false x = Inr False"
  by (cases x) (auto simp: catch_false_def)




lemma signEd25519_Inr:
  "signEd25519 P sk d = Inr s \<longleftrightarrow>
   (\<exists>c sig. jcsCanonicalize d = Inr c \<and> ed25519_sign P (Buffer_from_utf8 c) sk = Inr sig
      \<and> s = toString_base64url sig)"
  by (auto simp: signEd25519_def split: sum.splits)

lemma signSecp256k1_Inr:
  "signSecp256k1 P sk d = Inr s \<longleftrightarrow>
   (\<exists>c sig. jcsCanonicalize d = Inr c
      \<and> secp256k1_sign P (sha256_digest P (Buffer_from_utf8 c)) sk = Inr sig
      \<and> s = toString_base64url sig)"
  by (auto simp: signSecp256k1_def split: sum.splits)

lemma test_lib_ed25519_accepts:
  "ed25519_sign test_lib m test_sk = Inr sig \<Longrightarrow> ed25519_verify test_lib sig m test_pk = Inr True"
  by (auto simp: test_lib_def test_pk_def test_tag_def length_test_sk split: if_splits)

lemma test_lib_secp256k1_accepts:
  "secp256k1_sign test_lib h test_sk = Inr sig \<Longrightarrow>
   secp256k1_verify test_lib sig h test_secp_pk = Inr True"
  by (auto simp: test_lib_def test_secp_pk_def test_tag_def slice_def length_test_sk
      split: if_splits)

section \<open>The canonical bytes of a signature payload\<close>






























section \<open>Signing and verifying\<close>




lemma test_short_signature: "Buffer_from_base64url ''Bg'' = [6]"
  by (simp add: Buffer_from_base64url_ascii unbase64_def List.map_filter_def)

lemma jcsCanonicalize_null:
  "jcsCanonicalize JNull = Inl (TypeError ''Cannot convert undefined or null to object'')"
  by (simp add: jcsCanonicalize_def Object_keys_def)

lemma test_lib_digest: "length (sha256_digest test_lib m) = 32"
  by (simp add: test_lib_def)

text \<open>
  C3. For every private key and payload, the Ed25519 path signs the UTF-8 bytes of the
  canonical payload as they are, and its result does not depend on the digest function;
  the secp256k1 path hashes the canonical payload first and signs the digest, which is
  32 bytes long when the digest function is SHA-256 (the hypothesis). Either function
  returns exactly the base64url text of the raw signature bytes, from which the bytes
  can be read back.
\<close>

theorem sign_paths:
  assumes digest: "\<And>m. length (sha256_digest P m) = 32"
  shows "(signEd25519 P sk d = Inr s \<longleftrightarrow>
            (\<exists>c sig. jcsCanonicalize d = Inr c
               \<and> ed25519_sign P (Buffer_from_utf8 c) sk = Inr sig
               \<and> s = toString_base64url sig \<and> Buffer_from_base64url s = sig))
       \<and> (signSecp256k1 P sk d = Inr s \<longleftrightarrow>
            (\<exists>c h sig. jcsCanonicalize d = Inr c
               \<and> h = sha256_digest P (Buffer_from_utf8 c) \<and> length h = 32
               \<and> secp256k1_sign P h sk = Inr sig
               \<and> s = toString_base64url sig \<and> Buffer_from_base64url s = sig))
       \<and> signEd25519 (P\<lparr>sha256_digest := f\<rparr>) sk d = signEd25519 P sk d"
proof -
  have a: "signEd25519 P sk d = Inr s \<longleftrightarrow>
            (\<exists>c sig. jcsCanonicalize d = Inr c
               \<and> ed25519_sign P (Buffer_from_utf8 c) sk = Inr sig
               \<and> s = toString_base64url sig \<and> Buffer_from_base64url s = sig)"
    by (auto simp: signEd25519_Inr Buffer_from_base64url_toString)
  have b: "signSecp256k1 P sk d = Inr s \<longleftrightarrow>
            (\<exists>c h sig. jcsCanonicalize d = Inr c
               \<and> h = sha256_digest P (Buffer_from_utf8 c) \<and> length h = 32
               \<and> secp256k1_sign P h sk = Inr sig
               \<and> s = toString_base64url sig \<and> Buffer_from_base64url s = sig)"
    by (auto simp: signSecp256k1_Inr Buffer_from_base64url_toString digest)
  have c: "signEd25519 (P\<lparr>sha256_digest := f\<rparr>) sk d = signEd25519 P sk d"
    by (cases "jcsCanonicalize d") (simp_all add: signEd25519_def)
  from a b c show ?thesis by blast
qed

theorem sign_paths_witness:
  "(\<exists>sig. ed25519_sign test_lib (Buffer_from_utf8 test_canonical) test_sk = Inr sig
      \<and> toString_base64url sig =
        ''AgkQFx4lLDM6QUhPVl1ka3J5gIeOlZyjqrG4v8bN1NvS0tLS0tLS0tLS0tLS0tLS0tLS0tLS0tLS0tLS0tLS0g'')
   \<and> (\<exists>sig. secp256k1_sign test_lib (sha256_digest test_lib (Buffer_from_utf8 test_canonical))
             test_sk = Inr sig
      \<and> length (sha256_digest test_lib (Buffer_from_utf8 test_canonical)) = 32
      \<and> toString_base64url sig =
        ''AQgPFh0kKzI5QEdOVVxjanF4f4aNlJuiqbC3vsXM09pAQEBAQEBAQEBAQEBAQEBAQEBAQEBAQEBAQEBAQEBAQA'')"
proof -
  let ?d = "SignatureData_obj test_payload"
  have "\<exists>c sig. jcsCanonicalize ?d = Inr c
      \<and> ed25519_sign test_lib (Buffer_from_utf8 c) test_sk = Inr sig
      \<and> ''AgkQFx4lLDM6QUhPVl1ka3J5gIeOlZyjqrG4v8bN1NvS0tLS0tLS0tLS0tLS0tLS0tLS0tLS0tLS0tLS0tLS0g''
          = toString_base64url sig"
    using sign_paths [where P = test_lib and sk = test_sk and d = ?d
        and s = "''AgkQFx4lLDM6QUhPVl1ka3J5gIeOlZyjqrG4v8bN1NvS0tLS0tLS0tLS0tLS0tLS0tLS0tLS0tLS0tLS0tLS0g''",
        OF test_lib_digest] test_sig
    by blast
  moreover have "\<exists>c h sig. jcsCanonicalize ?d = Inr c
      \<and> h = sha256_digest test_lib (Buffer_from_utf8 c) \<and> length h = 32
      \<and> secp256k1_sign test_lib h test_sk = Inr sig
      \<and> ''AQgPFh0kKzI5QEdOVVxjanF4f4aNlJuiqbC3vsXM09pAQEBAQEBAQEBAQEBAQEBAQEBAQEBAQEBAQEBAQEBAQA''
          = toString_base64url sig"
    using sign_paths [where P = test_lib and sk = test_sk and d = ?d
        and s = "''AQgPFh0kKzI5QEdOVVxjanF4f4aNlJuiqbC3vsXM09pAQEBAQEBAQEBAQEBAQEBAQEBAQEBAQEBAQEBAQEBAQA''",
        OF test_lib_digest] test_sig_secp
    by blast
  ultimately show ?thesis
    by (auto simp: test_canon)
qed

text \<open>
  C4. \<^verbatim>\<open>verifyEd25519\<close> and \<^verbatim>\<open>verifySecp256k1\<close> never raise: for every public key,
  signature string and payload the result is the boolean true or false, and it is false
  whenever canonicalizing the payload or the verification primitive raises.
\<close>

theorem verify_never_raises:
  "(verifyEd25519 P pk s d = Inr True \<or> verifyEd25519 P pk s d = Inr False)
   \<and> (verifySecp256k1 P pk s d = Inr True \<or> verifySecp256k1 P pk s d = Inr False)
   \<and> (\<forall>e. jcsCanonicalize d = Inl e \<longrightarrow>
          verifyEd25519 P pk s d = Inr False \<and> verifySecp256k1 P pk s d = Inr False)
   \<and> (\<forall>c e. jcsCanonicalize d = Inr c
          \<and> ed25519_verify P (Buffer_from_base64url s) (Buffer_from_utf8 c) pk = Inl e \<longrightarrow>
          verifyEd25519 P pk s d = Inr False)
   \<and> (\<forall>c e. jcsCanonicalize d = Inr c
          \<and> secp256k1_verify P (Buffer_from_base64url s)
               (sha256_digest P (Buffer_from_utf8 c)) pk = Inl e \<longrightarrow>
          verifySecp256k1 P pk s d = Inr False)"
proof -
  have a: "verifyEd25519 P pk s d = Inr True \<or> verifyEd25519 P pk s d = Inr False"
    unfolding verifyEd25519_def by (rule catch_false_cases)
  have b: "verifySecp256k1 P pk s d = Inr True \<or> verifySecp256k1 P pk s d = Inr False"
    unfolding verifySecp256k1_def by (rule catch_false_cases)
  have c: "\<forall>e. jcsCanonicalize d = Inl e \<longrightarrow>
          verifyEd25519 P pk s d = Inr False \<and> verifySecp256k1 P pk s d = Inr False"
    by (simp add: verifyEd25519_def verifySecp256k1_def catch_false_def)
  have d: "\<forall>c e. jcsCanonicalize d = Inr c
          \<and> ed25519_verify P (Buffer_from_base64url s) (Buffer_from_utf8 c) pk = Inl e \<longrightarrow>
          verifyEd25519 P pk s d = Inr False"
    by (simp add: verifyEd25519_def catch_false_def)
  have e: "\<forall>c e. jcsCanonicalize d = Inr c
          \<and> secp256k1_verify P (Buffer_from_base64url s)
               (sha256_digest P (Buffer_from_utf8 c)) pk = Inl e \<longrightarrow>
          verifySecp256k1 P pk s d = Inr False"
    by (simp add: verifySecp256k1_def catch_false_def)
  from a b c d e show ?thesis by blast
qed

theorem verify_never_raises_witness:
  "verifyEd25519 test_lib test_pk ''Bg'' (SignatureData_obj test_payload) = Inr False
   \<and> verifySecp256k1 test_lib test_pk ''Bg'' (SignatureData_obj test_payload) = Inr False
   \<and> verifyEd25519 test_lib test_pk ''Bg'' JNull = Inr False
   \<and> verifySecp256k1 test_lib test_pk ''Bg'' JNull = Inr False"
proof -
  have "ed25519_verify test_lib (Buffer_from_base64url ''Bg'') m test_pk
          = Inl (Error ''Expected 64 bytes of signature and 32 bytes of public key'')"
    and "secp256k1_verify test_lib (Buffer_from_base64url ''Bg'') m test_pk
          = Inl (Error ''Expected 64 bytes of signature and 65 bytes of public key'')" for m
    by (simp_all add: test_short_signature test_lib_def)
  then show ?thesis
    using verify_never_raises [of test_lib test_pk "''Bg''" "SignatureData_obj test_payload"]
      verify_never_raises [of test_lib test_pk "''Bg''" JNull]
      test_canon jcsCanonicalize_null
    by simp
qed

section \<open>Canonicalization\<close>

text \<open>
  Two objects with the same keys and values, inserted in any order, have the same
  canonical text (the keys of an object are different strings, so their code units
  differ): the sorted keys are the property list, and an object is written by
  looking its members up under the names of that list.
\<close>

lemma map_of_serialized:
  "map_of (map (\<lambda>(k, v). (k, f v)) kvs) = map_option f \<circ> map_of kvs"
  by (induction kvs) auto

lemma serializeJSON_object_map_of:
  assumes "map_of kvs = map_of kvs'"
  shows "serializeJSON K (JObj kvs) = serializeJSON K (JObj kvs')"
  using assms by (simp add: map_of_serialized)

lemma sort_keys_unique:
  assumes "distinct (map code_units ks)" and "distinct (map code_units ks')"
    and "set ks = set ks'"
  shows "sort_key code_units ks = sort_key code_units ks'"
proof -
  let ?a = "sort_key code_units ks" and ?b = "sort_key code_units ks'"
  have d: "distinct (map code_units ?a)" "distinct (map code_units ?b)"
    using assms(1,2) by (simp_all add: distinct_map)
  have "map code_units ?a = map code_units ?b"
    using d assms(3) by (intro sorted_distinct_set_unique) simp_all
  moreover have "inj_on code_units (set ?a \<union> set ?b)"
    using assms by (simp add: distinct_map)
  ultimately show ?thesis by (simp add: inj_on_map_eq_map)
qed

lemma jcsCanonicalize_insertion_order:
  assumes "distinct (map code_units (map fst kvs))"
    and "distinct (map code_units (map fst kvs'))"
    and "map_of kvs = map_of kvs'"
  shows "jcsCanonicalize (JObj kvs) = jcsCanonicalize (JObj kvs')"
proof -
  have "set (map fst kvs) = dom (map_of kvs)" "set (map fst kvs') = dom (map_of kvs')"
    by (simp_all add: dom_map_of_conv_image_fst)
  with assms have "sort_key code_units (map fst kvs) = sort_key code_units (map fst kvs')"
    by (intro sort_keys_unique) simp_all
  then show ?thesis
    using serializeJSON_object_map_of [OF assms(3)]
    by (simp add: jcsCanonicalize_def Object_keys_def JSON_stringify_def)
qed

lemma map_of_filter_keys:
  "map_of (filter (\<lambda>(k, v). k \<in> S) kvs) P = (if P \<in> S then map_of kvs P else None)"
  by (induction kvs) auto

lemma map_filter_cong_set:
  "(\<And>x. x \<in> set xs \<Longrightarrow> f x = g x) \<Longrightarrow> List.map_filter f xs = List.map_filter g xs"
  by (induction xs) (auto simp: List.map_filter_simps split: option.splits)

lemma serializeJSON_keeps_listed_keys_only:
  "serializeJSON K (JObj kvs) = serializeJSON K (JObj (filter (\<lambda>(k, v). k \<in> set K) kvs))"
proof -
  have "List.map_filter
          (\<lambda>P. case map_of (map (\<lambda>(k, v). (k, serializeJSON K v)) kvs) P of
                 Some (Some t) \<Rightarrow> Some (quoteJSON P @ '':'' @ t) | _ \<Rightarrow> None) K
      = List.map_filter
          (\<lambda>P. case map_of (map (\<lambda>(k, v). (k, serializeJSON K v))
                    (filter (\<lambda>(k, v). k \<in> set K) kvs)) P of
                 Some (Some t) \<Rightarrow> Some (quoteJSON P @ '':'' @ t) | _ \<Rightarrow> None) K"
    by (rule map_filter_cong_set) (simp add: map_of_serialized map_of_filter_keys)
  then show ?thesis by simp
qed

text \<open>
  C2. The claim: the canonical text does not depend on the insertion order of the top-level
  keys (\<open>jcsCanonicalize_insertion_order\<close> proves that part), and nested objects are
  written in their original key order, untouched by the sort. The code does not do the
  second part. The sorted top-level keys are passed to \<^verbatim>\<open>JSON.stringify\<close> as its replacer
  array, which selects and orders the members of \<^emph>\<open>every\<close> object, the nested ones
  included (\<open>serializeJSON_keeps_listed_keys_only\<close>). In the first object below the
  nested member \<^verbatim>\<open>y\<close> is lost and \<^verbatim>\<open>b\<close>, \<^verbatim>\<open>a\<close> come out as \<^verbatim>\<open>a\<close>, \<^verbatim>\<open>b\<close>; the second object,
  with other nested content in another order, has the same canonical text.
\<close>

theorem jcsCanonicalize_nested_object:
  \<open>jcsCanonicalize
     (JObj [(''b'', JObj [(''y'', JStr ''1''), (''b'', JStr ''2''), (''a'', JStr ''3'')]),
            (''a'', JStr ''0'')])
     = Inr ''{"a":"0","b":{"a":"3","b":"2"}}''
   \<and> jcsCanonicalize
     (JObj [(''b'', JObj [(''a'', JStr ''3''), (''b'', JStr ''2''), (''z'', JStr ''9'')]),
            (''a'', JStr ''0'')])
     = Inr ''{"a":"0","b":{"a":"3","b":"2"}}''\<close>
  by (simp add: jcsCanonicalize_def Object_keys_def JSON_stringify_def List.map_filter_def
      sort_key_code_units_ascii quoteJSON_def escape_char_def)

section \<open>Updating a service endpoint\<close>

lemma findIndex_none: "findIndex p xs < 0 \<longleftrightarrow> (\<forall>x \<in> set xs. \<not> p x)"
  by (induction xs) (auto simp: Let_def)

lemma findIndex_lower: "- 1 \<le> findIndex p xs"
  by (induction xs) (auto simp: Let_def)

lemma findIndex_first:
  "0 \<le> findIndex p xs \<Longrightarrow>
   nat (findIndex p xs) < length xs \<and> p (xs ! nat (findIndex p xs))
   \<and> (\<forall>j < nat (findIndex p xs). \<not> p (xs ! j))"
proof (induction xs)
  case Nil
  then show ?case by simp
next
  case (Cons x xs)
  show ?case
  proof (cases "p x")
    case True
    then show ?thesis by simp
  next
    case False
    with Cons.prems have nn: "0 \<le> findIndex p xs"
      by (auto simp: Let_def split: if_splits)
    with False have eq: "findIndex p (x # xs) = findIndex p xs + 1"
      by (auto simp: Let_def)
    from Cons.IH [OF nn] have ih: "nat (findIndex p xs) < length xs"
      "p (xs ! nat (findIndex p xs))" "\<forall>j < nat (findIndex p xs). \<not> p (xs ! j)"
      by auto
    from nn have n: "nat (findIndex p xs + 1) = Suc (nat (findIndex p xs))" by simp
    show ?thesis
      unfolding eq n using ih False by (auto simp: less_Suc_eq_0_disj)
  qed
qed

text \<open>
  C9. On a configured object, \<^verbatim>\<open>updateServiceEndpoint\<close> succeeds and changes nothing but
  the \<^verbatim>\<open>service\<close> array of the DID document. When an entry has the id of the endpoint, the
  first such entry is replaced in place and the length stays; when none has, the new
  entry is appended and the length grows by one.
\<close>

theorem updateServiceEndpoint_upsert:
  assumes "didDocument this = Some doc"
  shows "\<exists>new. updateServiceEndpoint endpoint this
            = (Inr (), this\<lparr>didDocument := Some (doc\<lparr>service := Some new\<rparr>)\<rparr>)
       \<and> (if \<exists>s \<in> set (services_of doc). svc_id s = ep_id endpoint
          then length new = length (services_of doc)
             \<and> (\<exists>i < length (services_of doc).
                   svc_id (services_of doc ! i) = ep_id endpoint
                 \<and> (\<forall>j < i. svc_id (services_of doc ! j) \<noteq> ep_id endpoint)
                 \<and> new = (services_of doc)[i := endpoint_entry endpoint])
          else new = services_of doc @ [endpoint_entry endpoint]
             \<and> length new = length (services_of doc) + 1)"
proof (cases "\<exists>s \<in> set (services_of doc). svc_id s = ep_id endpoint")
  case True
  let ?p = "\<lambda>s. svc_id s = ep_id endpoint"
  let ?i = "findIndex ?p (services_of doc)"
  from True have nn: "0 \<le> ?i"
    using findIndex_none [of ?p "services_of doc"] by auto
  from findIndex_first [OF nn] have
    "nat ?i < length (services_of doc)" "svc_id (services_of doc ! nat ?i) = ep_id endpoint"
    "\<forall>j < nat ?i. svc_id (services_of doc ! j) \<noteq> ep_id endpoint"
    by auto
  then show ?thesis
    using True nn assms by (auto simp: updateServiceEndpoint_def Let_def)
next
  case False
  then have "findIndex (\<lambda>s. svc_id s = ep_id endpoint) (services_of doc) < 0"
    using findIndex_none [of "\<lambda>s. svc_id s = ep_id endpoint" "services_of doc"] by auto
  then show ?thesis
    using False assms by (auto simp: updateServiceEndpoint_def Let_def)
qed

theorem updateServiceEndpoint_upsert_witness:
  "(\<exists>new. updateServiceEndpoint test_endpoint test_config
       = (Inr (), test_config\<lparr>didDocument := Some (test_document\<lparr>service := Some new\<rparr>)\<rparr>)
     \<and> map svc_id new = [''did:wba:localhost:3000:auto-agent#agent-description'', ''default'']
     \<and> map serviceEndpoint new
         = [''https://localhost:3000/agents/auto-agent/ad.json'', ''https://example.com/anp/api''])
   \<and> (\<exists>new. updateServiceEndpoint test_endpoint_new test_config
       = (Inr (), test_config\<lparr>didDocument := Some (test_document\<lparr>service := Some new\<rparr>)\<rparr>)
     \<and> map svc_id new
         = [''did:wba:localhost:3000:auto-agent#agent-description'', ''default'', ''messaging''])"
proof -
  let ?a = "\<lparr>svc_id = ''did:wba:localhost:3000:auto-agent#agent-description'',
        svc_type = ''AgentDescription'',
        serviceEndpoint = ''https://localhost:3000/agents/auto-agent/ad.json'',
        svc_description = None\<rparr>"
  have doc: "didDocument test_config = Some test_document"
    by (simp add: test_config_def)
  have svcs: "services_of test_document = [?a, default_service]"
    by (simp add: services_of_def test_document_def)
  have hit: "\<exists>s \<in> set (services_of test_document). svc_id s = ep_id test_endpoint"
    by (simp add: svcs test_endpoint_def default_service_def)
  have miss: "\<not> (\<exists>s \<in> set (services_of test_document). svc_id s = ep_id test_endpoint_new)"
    by (simp add: svcs test_endpoint_new_def default_service_def)
  from updateServiceEndpoint_upsert [OF doc, of test_endpoint] hit
  obtain new i where
    r: "updateServiceEndpoint test_endpoint test_config
         = (Inr (), test_config\<lparr>didDocument := Some (test_document\<lparr>service := Some new\<rparr>)\<rparr>)"
    and i: "i < length (services_of test_document)"
      "svc_id (services_of test_document ! i) = ep_id test_endpoint"
    and new: "new = (services_of test_document)[i := endpoint_entry test_endpoint]"
    by (simp only: if_True) blast
  from i have "i = 1"
    by (cases i) (simp_all add: svcs test_endpoint_def)
  with new have "new = [?a, endpoint_entry test_endpoint]"
    by (simp add: svcs)
  with r have first: "\<exists>new. updateServiceEndpoint test_endpoint test_config
       = (Inr (), test_config\<lparr>didDocument := Some (test_document\<lparr>service := Some new\<rparr>)\<rparr>)
     \<and> map svc_id new = [''did:wba:localhost:3000:auto-agent#agent-description'', ''default'']
     \<and> map serviceEndpoint new
         = [''https://localhost:3000/agents/auto-agent/ad.json'', ''https://example.com/anp/api'']"
    by (intro exI [of _ "[?a, endpoint_entry test_endpoint]"])
       (simp add: endpoint_entry_def test_endpoint_def)
  from updateServiceEndpoint_upsert [OF doc, of test_endpoint_new] miss
  obtain new' where
    r': "updateServiceEndpoint test_endpoint_new test_config
         = (Inr (), test_config\<lparr>didDocument := Some (test_document\<lparr>service := Some new'\<rparr>)\<rparr>)"
    and new': "new' = services_of test_document @ [endpoint_entry test_endpoint_new]"
    by (simp only: if_False) blast
  then have second: "\<exists>new. updateServiceEndpoint test_endpoint_new test_config
       = (Inr (), test_config\<lparr>didDocument := Some (test_document\<lparr>service := Some new\<rparr>)\<rparr>)
     \<and> map svc_id new
         = [''did:wba:localhost:3000:auto-agent#agent-description'', ''default'', ''messaging'']"
    by (intro exI [of _ "[?a, default_service, endpoint_entry test_endpoint_new]"])
       (simp add: svcs endpoint_entry_def test_endpoint_new_def default_service_def)
  from first second show ?thesis by (rule conjI)
qed

section \<open>The generated document\<close>

text \<open>
  What a successful \<^verbatim>\<open>generateKeyPair\<close> has done: the branch on the key type has produced
  three key pairs one after the other, and the result is built from them.
\<close>

lemma methods_ED25519:
  assumes "generateKeyPair_methods P did keyId ED25519 g1 = (Inr m, g')"
  shows "\<exists>kp ka ha g2 g3.
           generateEd25519KeyPair P g1 = (Inr kp, g2)
         \<and> generateEd25519KeyPair P g2 = (Inr ka, g3)
         \<and> generateEd25519KeyPair P g3 = (Inr ha, g')
         \<and> m = (kp,
              [\<lparr>vm_id = did @ ''#'' @ keyId, vm_type = KeyType_value ED25519,
                vm_controller = did, publicKeyJwk = None,
                publicKeyMultibase = Some (encodeMultibase (kp_publicKey kp))\<rparr>,
               \<lparr>vm_id = did @ ''#key-2'', vm_type = KeyType_value X25519,
                vm_controller = did, publicKeyJwk = None,
                publicKeyMultibase = Some (encodeMultibase (kp_publicKey ka))\<rparr>,
               \<lparr>vm_id = did @ ''#key-3'', vm_type = KeyType_value ED25519,
                vm_controller = did, publicKeyJwk = None,
                publicKeyMultibase = Some (encodeMultibase (kp_publicKey ha))\<rparr>],
              [Ref (did @ ''#'' @ keyId)],
              [Embedded \<lparr>vm_id = did @ ''#key-2'', vm_type = KeyType_value X25519,
                vm_controller = did, publicKeyJwk = None,
                publicKeyMultibase = Some (encodeMultibase (kp_publicKey ka))\<rparr>],
              [Ref (did @ ''#'' @ keyId),
               Embedded \<lparr>vm_id = did @ ''#key-3'', vm_type = KeyType_value ED25519,
                vm_controller = did, publicKeyJwk = None,
                publicKeyMultibase = Some (encodeMultibase (kp_publicKey ha))\<rparr>])"
  using assms
  by (auto simp: generateKeyPair_methods_def Let_def split: prod.splits sum.splits)

lemma methods_SECP256K1:
  assumes "generateKeyPair_methods P did keyId SECP256K1 g1 = (Inr m, g')"
  shows "\<exists>kp jwk ka ha g2 g3 g4.
           generateSecp256k1KeyPair P g1 = (Inr kp, g2)
         \<and> generateJWK (kp_publicKey kp) SECP256K1 g2 = (jwk, g3)
         \<and> generateEd25519KeyPair P g3 = (Inr ka, g4)
         \<and> generateEd25519KeyPair P g4 = (Inr ha, g')
         \<and> m = (kp,
              [\<lparr>vm_id = did @ ''#'' @ keyId, vm_type = KeyType_value SECP256K1,
                vm_controller = did, publicKeyJwk = Some jwk,
                publicKeyMultibase = None\<rparr>,
               \<lparr>vm_id = did @ ''#key-2'', vm_type = KeyType_value X25519,
                vm_controller = did, publicKeyJwk = None,
                publicKeyMultibase = Some (encodeMultibase (kp_publicKey ka))\<rparr>,
               \<lparr>vm_id = did @ ''#key-3'', vm_type = KeyType_value ED25519,
                vm_controller = did, publicKeyJwk = None,
                publicKeyMultibase = Some (encodeMultibase (kp_publicKey ha))\<rparr>],
              [Ref (did @ ''#'' @ keyId)],
              [Embedded \<lparr>vm_id = did @ ''#key-2'', vm_type = KeyType_value X25519,
                vm_controller = did, publicKeyJwk = None,
                publicKeyMultibase = Some (encodeMultibase (kp_publicKey ka))\<rparr>],
              [Ref (did @ ''#'' @ keyId),
               Embedded \<lparr>vm_id = did @ ''#key-3'', vm_type = KeyType_value ED25519,
                vm_controller = did, publicKeyJwk = None,
                publicKeyMultibase = Some (encodeMultibase (kp_publicKey ha))\<rparr>])"
  using assms
  by (auto simp: generateKeyPair_methods_def Let_def split: prod.splits sum.splits)

lemma methods_X25519: "\<exists>e. generateKeyPair_methods P did keyId X25519 g1 = (Inl e, g1)"
  by (simp add: generateKeyPair_methods_def)

lemma generateKeyPair_InrE:
  assumes "generateKeyPair P gen kt g = (Inr r, g')"
  obtains kp vms auths kas has where
    "generateKeyPair_methods P (generateDID gen) (fst (generateNonce 16 g)) kt
       (snd (generateNonce 16 g)) = (Inr (kp, vms, auths, kas, has), g')"
    and "r = \<lparr>kpr_did_document = JSON_text
                  \<lparr>doc_context = did_contexts, doc_id = generateDID gen,
                   verificationMethod = Some vms, authentication = auths,
                   keyAgreement = Some kas, humanAuthorization = Some has,
                   service = Some [\<lparr>svc_id = generateDID gen @ ''#agent-description'',
                     svc_type = ''AgentDescription'',
                     serviceEndpoint = ''https://'' @ domain gen @ ''/agents/''
                       @ (if truthy (path gen)
                          then (case path gen of Some p \<Rightarrow> p | None \<Rightarrow> [])
                          else ''default'') @ ''/ad.json'',
                     svc_description = None\<rparr>]\<rparr>,
                kpr_private_key = generatePEMPrivateKey (kp_privateKey kp) kt,
                kpr_did = generateDID gen\<rparr>"
proof -
  let ?m = "generateKeyPair_methods P (generateDID gen) (fst (generateNonce 16 g)) kt
             (snd (generateNonce 16 g))"
  obtain res g2 where m: "?m = (res, g2)" by (cases ?m)
  show ?thesis
  proof (cases res)
    case (Inl e)
    with assms m show ?thesis
      by (simp add: generateKeyPair_def Let_def case_prod_beta)
  next
    case (Inr x)
    obtain kp vms auths kas has where x: "x = (kp, vms, auths, kas, has)"
      by (cases x)
    from assms m Inr x show ?thesis
      by (intro that [of kp vms auths kas has])
         (simp_all add: generateKeyPair_def Let_def case_prod_beta)
  qed
qed

lemma generateDID_cases:
  "generateDID gen =
     (case path gen of
        None \<Rightarrow> ''did:wba:'' @ domain gen
      | Some p \<Rightarrow> if p = [] then ''did:wba:'' @ domain gen
                  else ''did:wba:'' @ domain gen @ '':'' @ p)"
  by (simp add: generateDID_def truthy_def split: option.splits)

lemma methods_ED25519E:
  assumes "generateKeyPair_methods P did keyId ED25519 g1 = (Inr m, g')"
  obtains kp ka ha g2 g3 where
    "generateEd25519KeyPair P g1 = (Inr kp, g2)"
    and "generateEd25519KeyPair P g2 = (Inr ka, g3)"
    and "generateEd25519KeyPair P g3 = (Inr ha, g')"
    and "m = (kp,
              [\<lparr>vm_id = did @ ''#'' @ keyId, vm_type = KeyType_value ED25519,
                vm_controller = did, publicKeyJwk = None,
                publicKeyMultibase = Some (encodeMultibase (kp_publicKey kp))\<rparr>,
               \<lparr>vm_id = did @ ''#key-2'', vm_type = KeyType_value X25519,
                vm_controller = did, publicKeyJwk = None,
                publicKeyMultibase = Some (encodeMultibase (kp_publicKey ka))\<rparr>,
               \<lparr>vm_id = did @ ''#key-3'', vm_type = KeyType_value ED25519,
                vm_controller = did, publicKeyJwk = None,
                publicKeyMultibase = Some (encodeMultibase (kp_publicKey ha))\<rparr>],
              [Ref (did @ ''#'' @ keyId)],
              [Embedded \<lparr>vm_id = did @ ''#key-2'', vm_type = KeyType_value X25519,
                vm_controller = did, publicKeyJwk = None,
                publicKeyMultibase = Some (encodeMultibase (kp_publicKey ka))\<rparr>],
              [Ref (did @ ''#'' @ keyId),
               Embedded \<lparr>vm_id = did @ ''#key-3'', vm_type = KeyType_value ED25519,
                vm_controller = did, publicKeyJwk = None,
                publicKeyMultibase = Some (encodeMultibase (kp_publicKey ha))\<rparr>])"
  using methods_ED25519 [OF assms] by (elim exE conjE) (rule that; assumption)

lemma methods_SECP256K1E:
  assumes "generateKeyPair_methods P did keyId SECP256K1 g1 = (Inr m, g')"
  obtains kp jwk ka ha g2 g3 g4 where
    "generateSecp256k1KeyPair P g1 = (Inr kp, g2)"
    and "generateJWK (kp_publicKey kp) SECP256K1 g2 = (jwk, g3)"
    and "generateEd25519KeyPair P g3 = (Inr ka, g4)"
    and "generateEd25519KeyPair P g4 = (Inr ha, g')"
    and "m = (kp,
              [\<lparr>vm_id = did @ ''#'' @ keyId, vm_type = KeyType_value SECP256K1,
                vm_controller = did, publicKeyJwk = Some jwk,
                publicKeyMultibase = None\<rparr>,
               \<lparr>vm_id = did @ ''#key-2'', vm_type = KeyType_value X25519,
                vm_controller = did, publicKeyJwk = None,
                publicKeyMultibase = Some (encodeMultibase (kp_publicKey ka))\<rparr>,
               \<lparr>vm_id = did @ ''#key-3'', vm_type = KeyType_value ED25519,
                vm_controller = did, publicKeyJwk = None,
                publicKeyMultibase = Some (encodeMultibase (kp_publicKey ha))\<rparr>],
              [Ref (did @ ''#'' @ keyId)],
              [Embedded \<lparr>vm_id = did @ ''#key-2'', vm_type = KeyType_value X25519,
                vm_controller = did, publicKeyJwk = None,
                publicKeyMultibase = Some (encodeMultibase (kp_publicKey ka))\<rparr>],
              [Ref (did @ ''#'' @ keyId),
               Embedded \<lparr>vm_id = did @ ''#key-3'', vm_type = KeyType_value ED25519,
                vm_controller = did, publicKeyJwk = None,
                publicKeyMultibase = Some (encodeMultibase (kp_publicKey ha))\<rparr>])"
  using methods_SECP256K1 [OF assms] by (elim exE conjE) (rule that; assumption)

lemma generateEd25519KeyPair_Inr:
  "generateEd25519KeyPair P g = (Inr kp, g2) \<Longrightarrow>
   ed25519_getPublicKey P (kp_privateKey kp) = Inr (kp_publicKey kp)"
  by (auto simp: generateEd25519KeyPair_def case_prod_beta Let_def split: sum.splits)

lemma generateSecp256k1KeyPair_Inr:
  "generateSecp256k1KeyPair P g = (Inr kp, g2) \<Longrightarrow>
   secp256k1_getPublicKey P (kp_privateKey kp) = Inr (kp_publicKey kp)"
  by (auto simp: generateSecp256k1KeyPair_def case_prod_beta Let_def split: sum.splits)

lemma generateJWK_SECP256K1:
  "generateJWK pk SECP256K1 g =
     (\<lparr>jwk_crv = ''secp256k1'', jwk_x = Some (toString_base64url (slice 1 33 pk)),
       jwk_y = Some (toString_base64url (slice 33 65 pk)), jwk_kty = ''EC'',
       jwk_kid = toString_base64url (fst (randomBytes 16 g))\<rparr>, snd (randomBytes 16 g))"
  by (simp add: generateJWK_def generateNonce_def base64url_encode_def case_prod_beta Let_def)

lemma slice_halves:
  "length X = 32 \<Longrightarrow> length Y = 32 \<Longrightarrow>
   slice 1 33 (b # X @ Y) = X \<and> slice 33 65 (b # X @ Y) = Y"
  by (simp add: slice_def)

lemma length_randomBytes: "length (fst (randomBytes n g)) = n"
  by (simp add: randomBytes_def)

lemma generateKeyPair_keyAgreement:
  assumes "generateKeyPair P gen kt g = (Inr r, g')"
  shows "\<exists>ka. keyAgreement (JSON_parse (kpr_did_document r)) = Some [Embedded ka]
            \<and> vm_id ka = generateDID gen @ ''#key-2''"
proof -
  from assms obtain kp vms auths kas has where
    m: "generateKeyPair_methods P (generateDID gen) (fst (generateNonce 16 g)) kt
       (snd (generateNonce 16 g)) = (Inr (kp, vms, auths, kas, has), g')"
    and r: "r = \<lparr>kpr_did_document = JSON_text
                  \<lparr>doc_context = did_contexts, doc_id = generateDID gen,
                   verificationMethod = Some vms, authentication = auths,
                   keyAgreement = Some kas, humanAuthorization = Some has,
                   service = Some [\<lparr>svc_id = generateDID gen @ ''#agent-description'',
                     svc_type = ''AgentDescription'',
                     serviceEndpoint = ''https://'' @ domain gen @ ''/agents/''
                       @ (if truthy (path gen)
                          then (case path gen of Some p \<Rightarrow> p | None \<Rightarrow> [])
                          else ''default'') @ ''/ad.json'',
                     svc_description = None\<rparr>]\<rparr>,
                kpr_private_key = generatePEMPrivateKey (kp_privateKey kp) kt,
                kpr_did = generateDID gen\<rparr>"
    by (rule generateKeyPair_InrE)
  have f: "keyAgreement (JSON_parse (kpr_did_document r)) = Some kas"
    by (simp add: r)
  have "\<exists>ka. kas = [Embedded ka] \<and> vm_id ka = generateDID gen @ ''#key-2''"
  proof (cases kt)
    case ED25519
    from methods_ED25519 [OF m [unfolded ED25519]] show ?thesis by auto
  next
    case SECP256K1
    from methods_SECP256K1 [OF m [unfolded SECP256K1]] show ?thesis by auto
  next
    case X25519
    with m show ?thesis by (simp add: generateKeyPair_methods_def)
  qed
  then show ?thesis by (simp add: f)
qed

lemma generateKeyPair_did:
  assumes "generateKeyPair P gen kt g = (Inr r, g')"
  shows "kpr_did r = generateDID gen"
proof -
  from assms obtain kp vms auths kas has where
    "generateKeyPair_methods P (generateDID gen) (fst (generateNonce 16 g)) kt
       (snd (generateNonce 16 g)) = (Inr (kp, vms, auths, kas, has), g')"
    and r: "r = \<lparr>kpr_did_document = JSON_text
                  \<lparr>doc_context = did_contexts, doc_id = generateDID gen,
                   verificationMethod = Some vms, authentication = auths,
                   keyAgreement = Some kas, humanAuthorization = Some has,
                   service = Some [\<lparr>svc_id = generateDID gen @ ''#agent-description'',
                     svc_type = ''AgentDescription'',
                     serviceEndpoint = ''https://'' @ domain gen @ ''/agents/''
                       @ (if truthy (path gen)
                          then (case path gen of Some p \<Rightarrow> p | None \<Rightarrow> [])
                          else ''default'') @ ''/ad.json'',
                     svc_description = None\<rparr>]\<rparr>,
                kpr_private_key = generatePEMPrivateKey (kp_privateKey kp) kt,
                kpr_did = generateDID gen\<rparr>"
    by (rule generateKeyPair_InrE)
  show ?thesis by (simp add: r)
qed

text \<open>With the stand-in, key generation succeeds for both supported key types.\<close>

lemma test_keyId: "generateNonce 16 test_rng = (''AQgPFh0kKzI5QEdOVVxjag'', \<lambda>i. test_rng (16 + i))"
  by (simp add: generateNonce_def randomBytes_def test_rng_def upt_rec
      toString_base64url_def b64_char_def char_of_eq_iff)

lemma test_lib_ed25519_pair:
  "generateEd25519KeyPair test_lib g =
     (Inr \<lparr>kp_privateKey = fst (randomBytes 32 g),
           kp_publicKey = map (\<lambda>b. b + 1) (fst (randomBytes 32 g))\<rparr>, snd (randomBytes 32 g))"
  by (simp add: generateEd25519KeyPair_def test_lib_def case_prod_beta length_randomBytes)

lemma test_lib_secp256k1_pair:
  "generateSecp256k1KeyPair test_lib g =
     (Inr \<lparr>kp_privateKey = fst (randomBytes 32 g),
           kp_publicKey = 4 # fst (randomBytes 32 g) @ map (\<lambda>b. b + 1) (fst (randomBytes 32 g))\<rparr>,
      snd (randomBytes 32 g))"
  by (simp add: generateSecp256k1KeyPair_def test_lib_def case_prod_beta length_randomBytes)

lemma test_lib_methods_ED25519:
  "\<exists>m g'. generateKeyPair_methods test_lib did keyId ED25519 g = (Inr m, g')"
  by (simp add: generateKeyPair_methods_def test_lib_ed25519_pair Let_def)

lemma test_lib_methods_SECP256K1:
  "\<exists>m g'. generateKeyPair_methods test_lib did keyId SECP256K1 g = (Inr m, g')"
  by (simp add: generateKeyPair_methods_def test_lib_ed25519_pair test_lib_secp256k1_pair
      Let_def case_prod_beta)

lemma test_lib_generateKeyPair:
  assumes "kt = ED25519 \<or> kt = SECP256K1"
  shows "\<exists>r g'. generateKeyPair test_lib gen kt g = (Inr r, g')"
proof -
  from assms obtain m g' where
    "generateKeyPair_methods test_lib (generateDID gen) (fst (generateNonce 16 g)) kt
       (snd (generateNonce 16 g)) = (Inr m, g')"
    using test_lib_methods_ED25519 test_lib_methods_SECP256K1 by metis
  then show ?thesis
    by (cases m) (simp add: generateKeyPair_def Let_def case_prod_beta)
qed

lemma test_gen_did: "generateDID test_gen = ''did:wba:example.com:user:alice''"
  by (simp add: generateDID_cases test_gen_def)

lemma test_secp_sk:
  "fst (randomBytes 32 (\<lambda>i. test_rng (16 + i))) =
     [113, 120, 127, 134, 141, 148, 155, 162, 169, 176, 183, 190, 197, 204, 211, 218, 225,
      232, 239, 246, 253, 4, 11, 18, 25, 32, 39, 46, 53, 60, 67, 74]"
  by (simp add: randomBytes_def test_rng_def upt_rec)

lemma test_secp_x:
  "toString_base64url (fst (randomBytes 32 (\<lambda>i. test_rng (16 + i))))
     = ''cXh_ho2Um6KpsLe-xczT2uHo7_b9BAsSGSAnLjU8Q0o''"
  by (simp add: test_secp_sk toString_base64url_def b64_char_def char_of_eq_iff)

lemma test_secp_y:
  "toString_base64url (map (\<lambda>b. b + 1) (fst (randomBytes 32 (\<lambda>i. test_rng (16 + i)))))
     = ''cnmAh46VnKOqsbi_xs3U2-Lp8Pf-BQwTGiEoLzY9REs''"
  by (simp add: test_secp_sk toString_base64url_def b64_char_def char_of_eq_iff)

lemma test_secp_kid:
  "toString_base64url (fst (randomBytes 16 (snd (randomBytes 32 (\<lambda>i. test_rng (16 + i))))))
     = ''UVhfZm10e4KJkJeepayzug''"
  by (simp add: randomBytes_def test_rng_def upt_rec toString_base64url_def b64_char_def
      char_of_eq_iff)

text \<open>
  C5. The claim: a successful \<^verbatim>\<open>generateKeyPair\<close> with either supported primary algorithm
  gives a document with exactly three verification methods, all in
  \<^verbatim>\<open>verificationMethod\<close>: the authentication key, referenced by its id string in
  \<^verbatim>\<open>authentication\<close>; a key-agreement key generated with Ed25519 and typed X25519,
  referenced in \<^verbatim>\<open>keyAgreement\<close>; a human-authorization key generated with Ed25519, where
  \<^verbatim>\<open>humanAuthorization\<close> holds the authentication key's id as a string and the
  human-authorization method as an embedded object. In the wording of the specification
  an entry is either referenced (an id string) or embedded (the object). The code does
  not put a reference into \<^verbatim>\<open>keyAgreement\<close>: it pushes the method object itself, in both
  branches, as the counterexample below shows.

  As amended: the same, with \<^verbatim>\<open>keyAgreement\<close> holding exactly one entry, the key-agreement
  method embedded as an object.
\<close>

theorem generateKeyPair_three_methods:
  assumes "generateKeyPair P gen kt g = (Inr r, g')"
  shows "\<exists>auth ka ha kaPair haPair gk gh.
      (kt = ED25519 \<or> kt = SECP256K1)
    \<and> verificationMethod (JSON_parse (kpr_did_document r)) = Some [auth, ka, ha]
    \<and> vm_id auth = kpr_did r @ ''#'' @ fst (generateNonce 16 g)
    \<and> vm_type auth = KeyType_value kt
    \<and> vm_controller auth = kpr_did r
    \<and> authentication (JSON_parse (kpr_did_document r)) = [Ref (vm_id auth)]
    \<and> generateEd25519KeyPair P gk = (Inr kaPair, gh)
    \<and> ka = \<lparr>vm_id = kpr_did r @ ''#key-2'', vm_type = ''X25519KeyAgreementKey2019'',
             vm_controller = kpr_did r, publicKeyJwk = None,
             publicKeyMultibase = Some (encodeMultibase (kp_publicKey kaPair))\<rparr>
    \<and> keyAgreement (JSON_parse (kpr_did_document r)) = Some [Embedded ka]
    \<and> generateEd25519KeyPair P gh = (Inr haPair, g')
    \<and> ha = \<lparr>vm_id = kpr_did r @ ''#key-3'', vm_type = ''Ed25519VerificationKey2020'',
             vm_controller = kpr_did r, publicKeyJwk = None,
             publicKeyMultibase = Some (encodeMultibase (kp_publicKey haPair))\<rparr>
    \<and> humanAuthorization (JSON_parse (kpr_did_document r)) = Some [Ref (vm_id auth), Embedded ha]"
proof -
  from assms obtain kp vms auths kas has where
    m: "generateKeyPair_methods P (generateDID gen) (fst (generateNonce 16 g)) kt
       (snd (generateNonce 16 g)) = (Inr (kp, vms, auths, kas, has), g')"
    and r: "r = \<lparr>kpr_did_document = JSON_text
                  \<lparr>doc_context = did_contexts, doc_id = generateDID gen,
                   verificationMethod = Some vms, authentication = auths,
                   keyAgreement = Some kas, humanAuthorization = Some has,
                   service = Some [\<lparr>svc_id = generateDID gen @ ''#agent-description'',
                     svc_type = ''AgentDescription'',
                     serviceEndpoint = ''https://'' @ domain gen @ ''/agents/''
                       @ (if truthy (path gen)
                          then (case path gen of Some p \<Rightarrow> p | None \<Rightarrow> [])
                          else ''default'') @ ''/ad.json'',
                     svc_description = None\<rparr>]\<rparr>,
                kpr_private_key = generatePEMPrivateKey (kp_privateKey kp) kt,
                kpr_did = generateDID gen\<rparr>"
    by (rule generateKeyPair_InrE)
  have f: "verificationMethod (JSON_parse (kpr_did_document r)) = Some vms"
    "authentication (JSON_parse (kpr_did_document r)) = auths"
    "keyAgreement (JSON_parse (kpr_did_document r)) = Some kas"
    "humanAuthorization (JSON_parse (kpr_did_document r)) = Some has"
    "kpr_did r = generateDID gen"
    by (simp_all add: r)
  show ?thesis
  proof (cases kt)
    case ED25519
    from m [unfolded ED25519] obtain kp' ka ha g2 g3 where
      k2: "generateEd25519KeyPair P g2 = (Inr ka, g3)"
      and k3: "generateEd25519KeyPair P g3 = (Inr ha, g')"
      and v: "(kp, vms, auths, kas, has) = (kp',
              [\<lparr>vm_id = generateDID gen @ ''#'' @ fst (generateNonce 16 g),
                vm_type = KeyType_value ED25519,
                vm_controller = generateDID gen, publicKeyJwk = None,
                publicKeyMultibase = Some (encodeMultibase (kp_publicKey kp'))\<rparr>,
               \<lparr>vm_id = generateDID gen @ ''#key-2'', vm_type = KeyType_value X25519,
                vm_controller = generateDID gen, publicKeyJwk = None,
                publicKeyMultibase = Some (encodeMultibase (kp_publicKey ka))\<rparr>,
               \<lparr>vm_id = generateDID gen @ ''#key-3'', vm_type = KeyType_value ED25519,
                vm_controller = generateDID gen, publicKeyJwk = None,
                publicKeyMultibase = Some (encodeMultibase (kp_publicKey ha))\<rparr>],
              [Ref (generateDID gen @ ''#'' @ fst (generateNonce 16 g))],
              [Embedded \<lparr>vm_id = generateDID gen @ ''#key-2'', vm_type = KeyType_value X25519,
                vm_controller = generateDID gen, publicKeyJwk = None,
                publicKeyMultibase = Some (encodeMultibase (kp_publicKey ka))\<rparr>],
              [Ref (generateDID gen @ ''#'' @ fst (generateNonce 16 g)),
               Embedded \<lparr>vm_id = generateDID gen @ ''#key-3'', vm_type = KeyType_value ED25519,
                vm_controller = generateDID gen, publicKeyJwk = None,
                publicKeyMultibase = Some (encodeMultibase (kp_publicKey ha))\<rparr>])"
      by (rule methods_ED25519E)
    show ?thesis
      unfolding f
      by (rule exI [of _ "hd vms"],
        rule exI [of _ "hd (tl vms)"],
        rule exI [of _ "hd (tl (tl vms))"],
        rule exI [of _ ka],
        rule exI [of _ ha],
        rule exI [of _ g2],
        rule exI [of _ g3])
         (insert k2 k3 v, simp add: ED25519 KeyType_value_def)
  next
    case SECP256K1
    from m [unfolded SECP256K1] obtain kp' jwk ka ha g2 g3 g4 where
      k2: "generateEd25519KeyPair P g3 = (Inr ka, g4)"
      and k3: "generateEd25519KeyPair P g4 = (Inr ha, g')"
      and v: "(kp, vms, auths, kas, has) = (kp',
              [\<lparr>vm_id = generateDID gen @ ''#'' @ fst (generateNonce 16 g),
                vm_type = KeyType_value SECP256K1,
                vm_controller = generateDID gen, publicKeyJwk = Some jwk,
                publicKeyMultibase = None\<rparr>,
               \<lparr>vm_id = generateDID gen @ ''#key-2'', vm_type = KeyType_value X25519,
                vm_controller = generateDID gen, publicKeyJwk = None,
                publicKeyMultibase = Some (encodeMultibase (kp_publicKey ka))\<rparr>,
               \<lparr>vm_id = generateDID gen @ ''#key-3'', vm_type = KeyType_value ED25519,
                vm_controller = generateDID gen, publicKeyJwk = None,
                publicKeyMultibase = Some (encodeMultibase (kp_publicKey ha))\<rparr>],
              [Ref (generateDID gen @ ''#'' @ fst (generateNonce 16 g))],
              [Embedded \<lparr>vm_id = generateDID gen @ ''#key-2'', vm_type = KeyType_value X25519,
                vm_controller = generateDID gen, publicKeyJwk = None,
                publicKeyMultibase = Some (encodeMultibase (kp_publicKey ka))\<rparr>],
              [Ref (generateDID gen @ ''#'' @ fst (generateNonce 16 g)),
               Embedded \<lparr>vm_id = generateDID gen @ ''#key-3'', vm_type = KeyType_value ED25519,
                vm_controller = generateDID gen, publicKeyJwk = None,
                publicKeyMultibase = Some (encodeMultibase (kp_publicKey ha))\<rparr>])"
      by (rule methods_SECP256K1E)
    show ?thesis
      unfolding f
      by (rule exI [of _ "hd vms"],
        rule exI [of _ "hd (tl vms)"],
        rule exI [of _ "hd (tl (tl vms))"],
        rule exI [of _ ka],
        rule exI [of _ ha],
        rule exI [of _ g3],
        rule exI [of _ g4])
         (insert k2 k3 v, simp add: SECP256K1 KeyType_value_def)
  next
    case X25519
    with m show ?thesis by (simp add: generateKeyPair_methods_def)
  qed
qed

theorem generateKeyPair_three_methods_witness:
  "(\<exists>r g' auth ka ha.
      generateKeyPair test_lib test_gen ED25519 test_rng = (Inr r, g')
    \<and> verificationMethod (JSON_parse (kpr_did_document r)) = Some [auth, ka, ha]
    \<and> map vm_type [auth, ka, ha] = [''Ed25519VerificationKey2020'',
          ''X25519KeyAgreementKey2019'', ''Ed25519VerificationKey2020'']
    \<and> map vm_id [auth, ka, ha] = [''did:wba:example.com:user:alice#AQgPFh0kKzI5QEdOVVxjag'',
          ''did:wba:example.com:user:alice#key-2'', ''did:wba:example.com:user:alice#key-3'']
    \<and> authentication (JSON_parse (kpr_did_document r)) = [Ref (vm_id auth)]
    \<and> keyAgreement (JSON_parse (kpr_did_document r)) = Some [Embedded ka]
    \<and> humanAuthorization (JSON_parse (kpr_did_document r))
        = Some [Ref (vm_id auth), Embedded ha])
 \<and> (\<exists>r g' auth ka ha.
      generateKeyPair test_lib test_gen SECP256K1 test_rng = (Inr r, g')
    \<and> verificationMethod (JSON_parse (kpr_did_document r)) = Some [auth, ka, ha]
    \<and> map vm_type [auth, ka, ha] = [''EcdsaSecp256k1VerificationKey2019'',
          ''X25519KeyAgreementKey2019'', ''Ed25519VerificationKey2020'']
    \<and> map vm_id [auth, ka, ha] = [''did:wba:example.com:user:alice#AQgPFh0kKzI5QEdOVVxjag'',
          ''did:wba:example.com:user:alice#key-2'', ''did:wba:example.com:user:alice#key-3'']
    \<and> authentication (JSON_parse (kpr_did_document r)) = [Ref (vm_id auth)]
    \<and> keyAgreement (JSON_parse (kpr_did_document r)) = Some [Embedded ka]
    \<and> humanAuthorization (JSON_parse (kpr_did_document r))
        = Some [Ref (vm_id auth), Embedded ha])"
proof -
  have w: "\<exists>r g' auth ka ha.
      generateKeyPair test_lib test_gen kt test_rng = (Inr r, g')
    \<and> verificationMethod (JSON_parse (kpr_did_document r)) = Some [auth, ka, ha]
    \<and> map vm_type [auth, ka, ha] = [KeyType_value kt,
          ''X25519KeyAgreementKey2019'', ''Ed25519VerificationKey2020'']
    \<and> map vm_id [auth, ka, ha] = [''did:wba:example.com:user:alice#AQgPFh0kKzI5QEdOVVxjag'',
          ''did:wba:example.com:user:alice#key-2'', ''did:wba:example.com:user:alice#key-3'']
    \<and> authentication (JSON_parse (kpr_did_document r)) = [Ref (vm_id auth)]
    \<and> keyAgreement (JSON_parse (kpr_did_document r)) = Some [Embedded ka]
    \<and> humanAuthorization (JSON_parse (kpr_did_document r))
        = Some [Ref (vm_id auth), Embedded ha]"
    if kt: "kt = ED25519 \<or> kt = SECP256K1" for kt
  proof -
    obtain r g' where s: "generateKeyPair test_lib test_gen kt test_rng = (Inr r, g')"
      using test_lib_generateKeyPair [OF kt, of test_gen test_rng] by auto
    have did: "kpr_did r = ''did:wba:example.com:user:alice''"
      using generateKeyPair_did [OF s] by (simp add: test_gen_did)
    from generateKeyPair_three_methods [OF s]
    obtain auth ka ha kaPair haPair gk gh where
      c: "(kt = ED25519 \<or> kt = SECP256K1)
    \<and> verificationMethod (JSON_parse (kpr_did_document r)) = Some [auth, ka, ha]
    \<and> vm_id auth = kpr_did r @ ''#'' @ fst (generateNonce 16 test_rng)
    \<and> vm_type auth = KeyType_value kt
    \<and> vm_controller auth = kpr_did r
    \<and> authentication (JSON_parse (kpr_did_document r)) = [Ref (vm_id auth)]
    \<and> generateEd25519KeyPair test_lib gk = (Inr kaPair, gh)
    \<and> ka = \<lparr>vm_id = kpr_did r @ ''#key-2'', vm_type = ''X25519KeyAgreementKey2019'',
             vm_controller = kpr_did r, publicKeyJwk = None,
             publicKeyMultibase = Some (encodeMultibase (kp_publicKey kaPair))\<rparr>
    \<and> keyAgreement (JSON_parse (kpr_did_document r)) = Some [Embedded ka]
    \<and> generateEd25519KeyPair test_lib gh = (Inr haPair, g')
    \<and> ha = \<lparr>vm_id = kpr_did r @ ''#key-3'', vm_type = ''Ed25519VerificationKey2020'',
             vm_controller = kpr_did r, publicKeyJwk = None,
             publicKeyMultibase = Some (encodeMultibase (kp_publicKey haPair))\<rparr>
    \<and> humanAuthorization (JSON_parse (kpr_did_document r)) = Some [Ref (vm_id auth), Embedded ha]"
      by (elim exE) (rule that)
    show ?thesis
      by (rule exI [of _ r], rule exI [of _ g'], rule exI [of _ auth], rule exI [of _ ka],
          rule exI [of _ ha])
         (insert c s, simp add: did test_keyId)
  qed
  from w [of ED25519] w [of SECP256K1] show ?thesis
    by (simp add: KeyType_value_def)
qed

text \<open>The single entry of \<^verbatim>\<open>keyAgreement\<close> is an embedded object, not an id string.\<close>

theorem key_agreement_is_embedded:
  "case fst (generateKeyPair test_lib test_gen ED25519 test_rng) of
     Inl e \<Rightarrow> False
   | Inr r \<Rightarrow>
       (case keyAgreement (JSON_parse (kpr_did_document r)) of
          Some [Embedded vm] \<Rightarrow> vm_id vm = ''did:wba:example.com:user:alice#key-2''
        | _ \<Rightarrow> False)"
proof -
  obtain r g' where s: "generateKeyPair test_lib test_gen ED25519 test_rng = (Inr r, g')"
    using test_lib_generateKeyPair [of ED25519 test_gen test_rng] by auto
  from generateKeyPair_keyAgreement [OF s] obtain ka where
    "keyAgreement (JSON_parse (kpr_did_document r)) = Some [Embedded ka]"
    "vm_id ka = generateDID test_gen @ ''#key-2''"
    by auto
  then show ?thesis
    unfolding s by (simp add: generateDID_cases test_gen_def)
qed

text \<open>
  C6. Public keys are encoded per algorithm. In a generated document every Ed25519 public
  key (the key-agreement key, the human-authorization key and, for the Ed25519 key
  type, the authentication key) is the value the library returned for its private key,
  written as \<^verbatim>\<open>z\<close> followed by its base58 text. For the secp256k1 key type the
  authentication key is written as a JWK with \<^verbatim>\<open>kty\<close> EC and \<^verbatim>\<open>crv\<close> secp256k1, whose
  \<^verbatim>\<open>x\<close> and \<^verbatim>\<open>y\<close> are the base64url texts of bytes 1 to 32 and 33 to 64 of the public
  key: the two 32-byte halves after the leading byte, when the key is a 65-byte
  uncompressed point. Its \<^verbatim>\<open>kid\<close> is the base64url text of 16 bytes read from the random
  source where the generation of the key pair left it.
\<close>

theorem public_key_encodings:
  assumes "generateKeyPair P gen kt g = (Inr r, g')"
  shows "\<exists>auth ka ha skA pkA skH pkH.
      verificationMethod (JSON_parse (kpr_did_document r)) = Some [auth, ka, ha]
    \<and> ed25519_getPublicKey P skA = Inr pkA
    \<and> publicKeyMultibase ka = Some (CHR ''z'' # bs58_encode pkA) \<and> publicKeyJwk ka = None
    \<and> ed25519_getPublicKey P skH = Inr pkH
    \<and> publicKeyMultibase ha = Some (CHR ''z'' # bs58_encode pkH) \<and> publicKeyJwk ha = None
    \<and> (kt = ED25519 \<longrightarrow>
         (\<exists>sk pk. ed25519_getPublicKey P sk = Inr pk
            \<and> publicKeyMultibase auth = Some (CHR ''z'' # bs58_encode pk)
            \<and> publicKeyJwk auth = None))
    \<and> (kt = SECP256K1 \<longrightarrow>
         (\<exists>sk pk gj. secp256k1_getPublicKey P sk = Inr pk
            \<and> generateSecp256k1KeyPair P (snd (generateNonce 16 g))
                = (Inr \<lparr>kp_privateKey = sk, kp_publicKey = pk\<rparr>, gj)
            \<and> publicKeyMultibase auth = None
            \<and> publicKeyJwk auth = Some
                \<lparr>jwk_crv = ''secp256k1'',
                 jwk_x = Some (toString_base64url (slice 1 33 pk)),
                 jwk_y = Some (toString_base64url (slice 33 65 pk)),
                 jwk_kty = ''EC'',
                 jwk_kid = toString_base64url (fst (randomBytes 16 gj))\<rparr>
            \<and> length (fst (randomBytes 16 gj)) = 16
            \<and> (\<forall>b X Y. pk = b # X @ Y \<and> length X = 32 \<and> length Y = 32 \<longrightarrow>
                  slice 1 33 pk = X \<and> slice 33 65 pk = Y)))"
proof -
  from assms obtain kp vms auths kas has where
    m: "generateKeyPair_methods P (generateDID gen) (fst (generateNonce 16 g)) kt
       (snd (generateNonce 16 g)) = (Inr (kp, vms, auths, kas, has), g')"
    and r: "r = \<lparr>kpr_did_document = JSON_text
                  \<lparr>doc_context = did_contexts, doc_id = generateDID gen,
                   verificationMethod = Some vms, authentication = auths,
                   keyAgreement = Some kas, humanAuthorization = Some has,
                   service = Some [\<lparr>svc_id = generateDID gen @ ''#agent-description'',
                     svc_type = ''AgentDescription'',
                     serviceEndpoint = ''https://'' @ domain gen @ ''/agents/''
                       @ (if truthy (path gen)
                          then (case path gen of Some p \<Rightarrow> p | None \<Rightarrow> [])
                          else ''default'') @ ''/ad.json'',
                     svc_description = None\<rparr>]\<rparr>,
                kpr_private_key = generatePEMPrivateKey (kp_privateKey kp) kt,
                kpr_did = generateDID gen\<rparr>"
    by (rule generateKeyPair_InrE)
  have f: "verificationMethod (JSON_parse (kpr_did_document r)) = Some vms"
    by (simp add: r)
  have halves: "\<forall>b X Y. pk = b # X @ Y \<and> length X = 32 \<and> length Y = 32 \<longrightarrow>
                  slice 1 33 pk = X \<and> slice 33 65 pk = Y" for pk :: bytes
    by (intro allI impI) (elim conjE, simp add: slice_def)
  show ?thesis
  proof (cases kt)
    case ED25519
    from m [unfolded ED25519] obtain kp' ka ha g2 g3 where
      k1: "generateEd25519KeyPair P (snd (generateNonce 16 g)) = (Inr kp', g2)"
      and k2: "generateEd25519KeyPair P g2 = (Inr ka, g3)"
      and k3: "generateEd25519KeyPair P g3 = (Inr ha, g')"
      and v: "(kp, vms, auths, kas, has) = (kp',
              [\<lparr>vm_id = generateDID gen @ ''#'' @ fst (generateNonce 16 g),
                vm_type = KeyType_value ED25519,
                vm_controller = generateDID gen, publicKeyJwk = None,
                publicKeyMultibase = Some (encodeMultibase (kp_publicKey kp'))\<rparr>,
               \<lparr>vm_id = generateDID gen @ ''#key-2'', vm_type = KeyType_value X25519,
                vm_controller = generateDID gen, publicKeyJwk = None,
                publicKeyMultibase = Some (encodeMultibase (kp_publicKey ka))\<rparr>,
               \<lparr>vm_id = generateDID gen @ ''#key-3'', vm_type = KeyType_value ED25519,
                vm_controller = generateDID gen, publicKeyJwk = None,
                publicKeyMultibase = Some (encodeMultibase (kp_publicKey ha))\<rparr>],
              [Ref (generateDID gen @ ''#'' @ fst (generateNonce 16 g))],
              [Embedded \<lparr>vm_id = generateDID gen @ ''#key-2'', vm_type = KeyType_value X25519,
                vm_controller = generateDID gen, publicKeyJwk = None,
                publicKeyMultibase = Some (encodeMultibase (kp_publicKey ka))\<rparr>],
              [Ref (generateDID gen @ ''#'' @ fst (generateNonce 16 g)),
               Embedded \<lparr>vm_id = generateDID gen @ ''#key-3'', vm_type = KeyType_value ED25519,
                vm_controller = generateDID gen, publicKeyJwk = None,
                publicKeyMultibase = Some (encodeMultibase (kp_publicKey ha))\<rparr>])"
      by (rule methods_ED25519E)
    from v have vms: "hd vms = \<lparr>vm_id = generateDID gen @ ''#'' @ fst (generateNonce 16 g),
                vm_type = KeyType_value ED25519,
                vm_controller = generateDID gen, publicKeyJwk = None,
                publicKeyMultibase = Some (encodeMultibase (kp_publicKey kp'))\<rparr>"
      "hd (tl vms) = \<lparr>vm_id = generateDID gen @ ''#key-2'', vm_type = KeyType_value X25519,
                vm_controller = generateDID gen, publicKeyJwk = None,
                publicKeyMultibase = Some (encodeMultibase (kp_publicKey ka))\<rparr>"
      "hd (tl (tl vms)) = \<lparr>vm_id = generateDID gen @ ''#key-3'', vm_type = KeyType_value ED25519,
                vm_controller = generateDID gen, publicKeyJwk = None,
                publicKeyMultibase = Some (encodeMultibase (kp_publicKey ha))\<rparr>"
      "vms = [hd vms, hd (tl vms), hd (tl (tl vms))]"
      by simp_all
    have auth: "\<exists>sk pk. ed25519_getPublicKey P sk = Inr pk
            \<and> publicKeyMultibase (hd vms) = Some (CHR ''z'' # bs58_encode pk)
            \<and> publicKeyJwk (hd vms) = None"
      by (rule exI [of _ "kp_privateKey kp'"],
        rule exI [of _ "kp_publicKey kp'"])
         (insert generateEd25519KeyPair_Inr [OF k1], simp add: vms(1) encodeMultibase_def)
    show ?thesis
      unfolding f
      by (rule exI [of _ "hd vms"],
        rule exI [of _ "hd (tl vms)"],
        rule exI [of _ "hd (tl (tl vms))"],
        rule exI [of _ "kp_privateKey ka"],
        rule exI [of _ "kp_publicKey ka"],
        rule exI [of _ "kp_privateKey ha"],
        rule exI [of _ "kp_publicKey ha"])
         (insert generateEd25519KeyPair_Inr [OF k2] generateEd25519KeyPair_Inr [OF k3] auth vms(4), simp add: ED25519 encodeMultibase_def vms(2) vms(3))
  next
    case SECP256K1
    from m [unfolded SECP256K1] obtain kp' jwk ka ha g2 g3 g4 where
      k1: "generateSecp256k1KeyPair P (snd (generateNonce 16 g)) = (Inr kp', g2)"
      and j: "generateJWK (kp_publicKey kp') SECP256K1 g2 = (jwk, g3)"
      and k2: "generateEd25519KeyPair P g3 = (Inr ka, g4)"
      and k3: "generateEd25519KeyPair P g4 = (Inr ha, g')"
      and v: "(kp, vms, auths, kas, has) = (kp',
              [\<lparr>vm_id = generateDID gen @ ''#'' @ fst (generateNonce 16 g),
                vm_type = KeyType_value SECP256K1,
                vm_controller = generateDID gen, publicKeyJwk = Some jwk,
                publicKeyMultibase = None\<rparr>,
               \<lparr>vm_id = generateDID gen @ ''#key-2'', vm_type = KeyType_value X25519,
                vm_controller = generateDID gen, publicKeyJwk = None,
                publicKeyMultibase = Some (encodeMultibase (kp_publicKey ka))\<rparr>,
               \<lparr>vm_id = generateDID gen @ ''#key-3'', vm_type = KeyType_value ED25519,
                vm_controller = generateDID gen, publicKeyJwk = None,
                publicKeyMultibase = Some (encodeMultibase (kp_publicKey ha))\<rparr>],
              [Ref (generateDID gen @ ''#'' @ fst (generateNonce 16 g))],
              [Embedded \<lparr>vm_id = generateDID gen @ ''#key-2'', vm_type = KeyType_value X25519,
                vm_controller = generateDID gen, publicKeyJwk = None,
                publicKeyMultibase = Some (encodeMultibase (kp_publicKey ka))\<rparr>],
              [Ref (generateDID gen @ ''#'' @ fst (generateNonce 16 g)),
               Embedded \<lparr>vm_id = generateDID gen @ ''#key-3'', vm_type = KeyType_value ED25519,
                vm_controller = generateDID gen, publicKeyJwk = None,
                publicKeyMultibase = Some (encodeMultibase (kp_publicKey ha))\<rparr>])"
      by (rule methods_SECP256K1E)
    from v have vms: "hd vms = \<lparr>vm_id = generateDID gen @ ''#'' @ fst (generateNonce 16 g),
                vm_type = KeyType_value SECP256K1,
                vm_controller = generateDID gen, publicKeyJwk = Some jwk,
                publicKeyMultibase = None\<rparr>"
      "hd (tl vms) = \<lparr>vm_id = generateDID gen @ ''#key-2'', vm_type = KeyType_value X25519,
                vm_controller = generateDID gen, publicKeyJwk = None,
                publicKeyMultibase = Some (encodeMultibase (kp_publicKey ka))\<rparr>"
      "hd (tl (tl vms)) = \<lparr>vm_id = generateDID gen @ ''#key-3'', vm_type = KeyType_value ED25519,
                vm_controller = generateDID gen, publicKeyJwk = None,
                publicKeyMultibase = Some (encodeMultibase (kp_publicKey ha))\<rparr>"
      "vms = [hd vms, hd (tl vms), hd (tl (tl vms))]"
      by simp_all
    from j have jwk: "jwk = \<lparr>jwk_crv = ''secp256k1'',
         jwk_x = Some (toString_base64url (slice 1 33 (kp_publicKey kp'))),
         jwk_y = Some (toString_base64url (slice 33 65 (kp_publicKey kp'))),
         jwk_kty = ''EC'',
         jwk_kid = toString_base64url (fst (randomBytes 16 g2))\<rparr>"
      by (simp add: generateJWK_SECP256K1)
    have auth: "\<exists>sk pk gj. secp256k1_getPublicKey P sk = Inr pk
            \<and> generateSecp256k1KeyPair P (snd (generateNonce 16 g))
                = (Inr \<lparr>kp_privateKey = sk, kp_publicKey = pk\<rparr>, gj)
            \<and> publicKeyMultibase (hd vms) = None
            \<and> publicKeyJwk (hd vms) = Some
                \<lparr>jwk_crv = ''secp256k1'',
                 jwk_x = Some (toString_base64url (slice 1 33 pk)),
                 jwk_y = Some (toString_base64url (slice 33 65 pk)),
                 jwk_kty = ''EC'',
                 jwk_kid = toString_base64url (fst (randomBytes 16 gj))\<rparr>
            \<and> length (fst (randomBytes 16 gj)) = 16
            \<and> (\<forall>b X Y. pk = b # X @ Y \<and> length X = 32 \<and> length Y = 32 \<longrightarrow>
                  slice 1 33 pk = X \<and> slice 33 65 pk = Y)"
    proof (rule exI [of _ "kp_privateKey kp'"],
        rule exI [of _ "kp_publicKey kp'"],
        rule exI [of _ g2],
        intro conjI)
      show "secp256k1_getPublicKey P (kp_privateKey kp') = Inr (kp_publicKey kp')"
        by (rule generateSecp256k1KeyPair_Inr [OF k1])
      show "generateSecp256k1KeyPair P (snd (generateNonce 16 g))
          = (Inr \<lparr>kp_privateKey = kp_privateKey kp', kp_publicKey = kp_publicKey kp'\<rparr>, g2)"
        using k1 by simp
      show "publicKeyMultibase (hd vms) = None"
        using vms by simp
      show "publicKeyJwk (hd vms) = Some
                \<lparr>jwk_crv = ''secp256k1'',
                 jwk_x = Some (toString_base64url (slice 1 33 (kp_publicKey kp'))),
                 jwk_y = Some (toString_base64url (slice 33 65 (kp_publicKey kp'))),
                 jwk_kty = ''EC'',
                 jwk_kid = toString_base64url (fst (randomBytes 16 g2))\<rparr>"
        using vms by (simp add: jwk)
      show "length (fst (randomBytes 16 g2)) = 16"
        by (rule length_randomBytes)
      show "\<forall>b X Y. kp_publicKey kp' = b # X @ Y \<and> length X = 32 \<and> length Y = 32 \<longrightarrow>
                  slice 1 33 (kp_publicKey kp') = X \<and> slice 33 65 (kp_publicKey kp') = Y"
        by (rule halves)
    qed
    show ?thesis
      unfolding f
      by (rule exI [of _ "hd vms"],
        rule exI [of _ "hd (tl vms)"],
        rule exI [of _ "hd (tl (tl vms))"],
        rule exI [of _ "kp_privateKey ka"],
        rule exI [of _ "kp_publicKey ka"],
        rule exI [of _ "kp_privateKey ha"],
        rule exI [of _ "kp_publicKey ha"])
         (insert generateEd25519KeyPair_Inr [OF k2] generateEd25519KeyPair_Inr [OF k3] auth vms(4), simp add: SECP256K1 encodeMultibase_def vms(2) vms(3))
  next
    case X25519
    with m show ?thesis by (simp add: generateKeyPair_methods_def)
  qed
qed

theorem public_key_encodings_witness:
  "(\<exists>r g' auth ka ha sk pk.
      generateKeyPair test_lib test_gen ED25519 test_rng = (Inr r, g')
    \<and> verificationMethod (JSON_parse (kpr_did_document r)) = Some [auth, ka, ha]
    \<and> ed25519_getPublicKey test_lib sk = Inr pk
    \<and> publicKeyMultibase auth = Some (CHR ''z'' # bs58_encode pk))
 \<and> (\<exists>r g' auth ka ha.
      generateKeyPair test_lib test_gen SECP256K1 test_rng = (Inr r, g')
    \<and> verificationMethod (JSON_parse (kpr_did_document r)) = Some [auth, ka, ha]
    \<and> publicKeyJwk auth = Some
         \<lparr>jwk_crv = ''secp256k1'',
          jwk_x = Some ''cXh_ho2Um6KpsLe-xczT2uHo7_b9BAsSGSAnLjU8Q0o'',
          jwk_y = Some ''cnmAh46VnKOqsbi_xs3U2-Lp8Pf-BQwTGiEoLzY9REs'',
          jwk_kty = ''EC'', jwk_kid = ''UVhfZm10e4KJkJeepayzug''\<rparr>)"
proof (rule conjI)
  obtain r g' where s: "generateKeyPair test_lib test_gen ED25519 test_rng = (Inr r, g')"
    using test_lib_generateKeyPair [of ED25519 test_gen test_rng] by auto
  from public_key_encodings [OF s]
  obtain auth ka ha sk pk where
    "verificationMethod (JSON_parse (kpr_did_document r)) = Some [auth, ka, ha]"
    "ed25519_getPublicKey test_lib sk = Inr pk"
    "publicKeyMultibase auth = Some (CHR ''z'' # bs58_encode pk)"
    by auto
  with s show "\<exists>r g' auth ka ha sk pk.
      generateKeyPair test_lib test_gen ED25519 test_rng = (Inr r, g')
    \<and> verificationMethod (JSON_parse (kpr_did_document r)) = Some [auth, ka, ha]
    \<and> ed25519_getPublicKey test_lib sk = Inr pk
    \<and> publicKeyMultibase auth = Some (CHR ''z'' # bs58_encode pk)"
    by (intro exI [of _ r] exI [of _ g'] exI [of _ auth] exI [of _ ka] exI [of _ ha]
        exI [of _ sk] exI [of _ pk]) simp
next
  obtain r g' where s: "generateKeyPair test_lib test_gen SECP256K1 test_rng = (Inr r, g')"
    using test_lib_generateKeyPair [of SECP256K1 test_gen test_rng] by auto
  let ?g1 = "\<lambda>i. test_rng (16 + i)"
  let ?S = "fst (randomBytes 32 ?g1)"
  from public_key_encodings [OF s]
  obtain auth ka ha sk pk gj where
    vm: "verificationMethod (JSON_parse (kpr_did_document r)) = Some [auth, ka, ha]"
    and kp: "generateSecp256k1KeyPair test_lib (snd (generateNonce 16 test_rng))
                = (Inr \<lparr>kp_privateKey = sk, kp_publicKey = pk\<rparr>, gj)"
    and jwk: "publicKeyJwk auth = Some
                \<lparr>jwk_crv = ''secp256k1'',
                 jwk_x = Some (toString_base64url (slice 1 33 pk)),
                 jwk_y = Some (toString_base64url (slice 33 65 pk)),
                 jwk_kty = ''EC'',
                 jwk_kid = toString_base64url (fst (randomBytes 16 gj))\<rparr>"
    and halves: "\<forall>b X Y. pk = b # X @ Y \<and> length X = 32 \<and> length Y = 32 \<longrightarrow>
                  slice 1 33 pk = X \<and> slice 33 65 pk = Y"
    by auto
  from kp have pk: "pk = 4 # ?S @ map (\<lambda>b. b + 1) ?S" and gj: "gj = snd (randomBytes 32 ?g1)"
    by (auto simp: test_lib_secp256k1_pair test_keyId)
  from halves pk have "slice 1 33 pk = ?S" "slice 33 65 pk = map (\<lambda>b. b + 1) ?S"
    by (simp_all add: length_randomBytes)
  with jwk gj have "publicKeyJwk auth = Some
         \<lparr>jwk_crv = ''secp256k1'',
          jwk_x = Some ''cXh_ho2Um6KpsLe-xczT2uHo7_b9BAsSGSAnLjU8Q0o'',
          jwk_y = Some ''cnmAh46VnKOqsbi_xs3U2-Lp8Pf-BQwTGiEoLzY9REs'',
          jwk_kty = ''EC'', jwk_kid = ''UVhfZm10e4KJkJeepayzug''\<rparr>"
    by (simp add: test_secp_x test_secp_y test_secp_kid)
  with s vm show "\<exists>r g' auth ka ha.
      generateKeyPair test_lib test_gen SECP256K1 test_rng = (Inr r, g')
    \<and> verificationMethod (JSON_parse (kpr_did_document r)) = Some [auth, ka, ha]
    \<and> publicKeyJwk auth = Some
         \<lparr>jwk_crv = ''secp256k1'',
          jwk_x = Some ''cXh_ho2Um6KpsLe-xczT2uHo7_b9BAsSGSAnLjU8Q0o'',
          jwk_y = Some ''cnmAh46VnKOqsbi_xs3U2-Lp8Pf-BQwTGiEoLzY9REs'',
          jwk_kty = ''EC'', jwk_kid = ''UVhfZm10e4KJkJeepayzug''\<rparr>"
    by (intro exI [of _ r] exI [of _ g'] exI [of _ auth] exI [of _ ka] exI [of _ ha]) simp
qed

text \<open>
  C7. The claim: the DID is \<^verbatim>\<open>did:wba:<domain>:<path>\<close> when a path is given and
  \<^verbatim>\<open>did:wba:<domain>\<close> when it is not, and the document has one service of type
  AgentDescription with endpoint \<^verbatim>\<open>https://<domain>/agents/<path>/ad.json\<close>, \<^verbatim>\<open>default\<close>
  standing for a missing path. The code tests the path for truthiness, so a path that
  is given as the empty string is treated as missing, as the counterexample below shows.

  As amended: the DID is \<^verbatim>\<open>did:wba:<domain>:<path>\<close> when a non-empty path is given and
  \<^verbatim>\<open>did:wba:<domain>\<close> when the path is missing or empty; the service endpoint is
  \<^verbatim>\<open>https://<domain>/agents/<path>/ad.json\<close>, with \<^verbatim>\<open>default\<close> for a missing or empty
  path. For the domain \<^verbatim>\<open>example.com\<close> and the path \<^verbatim>\<open>user:alice\<close> the DID is
  \<^verbatim>\<open>did:wba:example.com:user:alice\<close> and the endpoint
  \<^verbatim>\<open>https://example.com/agents/user:alice/ad.json\<close>.
\<close>

theorem generateKeyPair_did_and_service:
  assumes "generateKeyPair P gen kt g = (Inr r, g')"
  shows "kpr_did r = doc_id (JSON_parse (kpr_did_document r))
       \<and> doc_id (JSON_parse (kpr_did_document r)) =
           (case path gen of
              None \<Rightarrow> ''did:wba:'' @ domain gen
            | Some p \<Rightarrow> if p = [] then ''did:wba:'' @ domain gen
                        else ''did:wba:'' @ domain gen @ '':'' @ p)
       \<and> service (JSON_parse (kpr_did_document r)) =
           Some [\<lparr>svc_id = doc_id (JSON_parse (kpr_did_document r)) @ ''#agent-description'',
                  svc_type = ''AgentDescription'',
                  serviceEndpoint = ''https://'' @ domain gen @ ''/agents/''
                    @ (case path gen of
                         None \<Rightarrow> ''default''
                       | Some p \<Rightarrow> if p = [] then ''default'' else p) @ ''/ad.json'',
                  svc_description = None\<rparr>]
       \<and> (domain gen = ''example.com'' \<and> path gen = Some ''user:alice'' \<longrightarrow>
            doc_id (JSON_parse (kpr_did_document r)) = ''did:wba:example.com:user:alice''
          \<and> map serviceEndpoint (services_of (JSON_parse (kpr_did_document r)))
              = [''https://example.com/agents/user:alice/ad.json''])"
proof -
  from assms obtain kp vms auths kas has where
    "generateKeyPair_methods P (generateDID gen) (fst (generateNonce 16 g)) kt
       (snd (generateNonce 16 g)) = (Inr (kp, vms, auths, kas, has), g')"
    and r: "r = \<lparr>kpr_did_document = JSON_text
                  \<lparr>doc_context = did_contexts, doc_id = generateDID gen,
                   verificationMethod = Some vms, authentication = auths,
                   keyAgreement = Some kas, humanAuthorization = Some has,
                   service = Some [\<lparr>svc_id = generateDID gen @ ''#agent-description'',
                     svc_type = ''AgentDescription'',
                     serviceEndpoint = ''https://'' @ domain gen @ ''/agents/''
                       @ (if truthy (path gen)
                          then (case path gen of Some p \<Rightarrow> p | None \<Rightarrow> [])
                          else ''default'') @ ''/ad.json'',
                     svc_description = None\<rparr>]\<rparr>,
                kpr_private_key = generatePEMPrivateKey (kp_privateKey kp) kt,
                kpr_did = generateDID gen\<rparr>"
    by (rule generateKeyPair_InrE)
  have did: "kpr_did r = generateDID gen"
    and doc_id: "doc_id (JSON_parse (kpr_did_document r)) = generateDID gen"
    and svc: "service (JSON_parse (kpr_did_document r)) =
       Some [\<lparr>svc_id = generateDID gen @ ''#agent-description'',
                     svc_type = ''AgentDescription'',
                     serviceEndpoint = ''https://'' @ domain gen @ ''/agents/''
                       @ (if truthy (path gen)
                          then (case path gen of Some p \<Rightarrow> p | None \<Rightarrow> [])
                          else ''default'') @ ''/ad.json'',
                     svc_description = None\<rparr>]"
    by (simp_all add: r)
  have a: "kpr_did r = doc_id (JSON_parse (kpr_did_document r))"
    by (simp add: did doc_id)
  have b: "doc_id (JSON_parse (kpr_did_document r)) =
           (case path gen of
              None \<Rightarrow> ''did:wba:'' @ domain gen
            | Some p \<Rightarrow> if p = [] then ''did:wba:'' @ domain gen
                        else ''did:wba:'' @ domain gen @ '':'' @ p)"
    by (simp only: doc_id generateDID_cases)
  have c: "service (JSON_parse (kpr_did_document r)) =
           Some [\<lparr>svc_id = doc_id (JSON_parse (kpr_did_document r)) @ ''#agent-description'',
                  svc_type = ''AgentDescription'',
                  serviceEndpoint = ''https://'' @ domain gen @ ''/agents/''
                    @ (case path gen of
                         None \<Rightarrow> ''default''
                       | Some p \<Rightarrow> if p = [] then ''default'' else p) @ ''/ad.json'',
                  svc_description = None\<rparr>]"
    unfolding svc doc_id by (cases "path gen") (simp_all add: truthy_def)
  have d: "doc_id (JSON_parse (kpr_did_document r)) = ''did:wba:example.com:user:alice''
          \<and> map serviceEndpoint (services_of (JSON_parse (kpr_did_document r)))
              = [''https://example.com/agents/user:alice/ad.json'']"
    if "domain gen = ''example.com''" and "path gen = Some ''user:alice''"
    using that by (simp add: b c services_of_def)
  show ?thesis
    using d by (intro conjI impI a b c) simp_all
qed

theorem generateKeyPair_did_and_service_witness:
  "\<exists>r g'. generateKeyPair test_lib test_gen ED25519 test_rng = (Inr r, g')
     \<and> kpr_did r = ''did:wba:example.com:user:alice''
     \<and> doc_id (JSON_parse (kpr_did_document r)) = ''did:wba:example.com:user:alice''
     \<and> map svc_type (services_of (JSON_parse (kpr_did_document r))) = [''AgentDescription'']
     \<and> map serviceEndpoint (services_of (JSON_parse (kpr_did_document r)))
         = [''https://example.com/agents/user:alice/ad.json'']"
proof -
  obtain r g' where s: "generateKeyPair test_lib test_gen ED25519 test_rng = (Inr r, g')"
    using test_lib_generateKeyPair [of ED25519 test_gen test_rng] by auto
  have "kpr_did r = ''did:wba:example.com:user:alice''
     \<and> doc_id (JSON_parse (kpr_did_document r)) = ''did:wba:example.com:user:alice''
     \<and> map svc_type (services_of (JSON_parse (kpr_did_document r))) = [''AgentDescription'']
     \<and> map serviceEndpoint (services_of (JSON_parse (kpr_did_document r)))
         = [''https://example.com/agents/user:alice/ad.json'']"
    using generateKeyPair_did_and_service [OF s]
    by (simp add: test_gen_def services_of_def)
  with s show ?thesis by (intro exI [of _ r] exI [of _ g']) simp
qed

text \<open>
  With the empty string as path the DID has no path part and the endpoint is the default
  one.
\<close>

theorem empty_path_is_no_path:
  "case fst (generateKeyPair test_lib test_gen_empty_path ED25519 test_rng) of
     Inl e \<Rightarrow> False
   | Inr r \<Rightarrow>
       path test_gen_empty_path = Some []
     \<and> doc_id (JSON_parse (kpr_did_document r)) = ''did:wba:example.com''
     \<and> doc_id (JSON_parse (kpr_did_document r)) \<noteq> ''did:wba:'' @ ''example.com'' @ '':'' @ []
     \<and> map serviceEndpoint (services_of (JSON_parse (kpr_did_document r)))
         = [''https://example.com/agents/default/ad.json'']"
proof -
  obtain r g' where
    s: "generateKeyPair test_lib test_gen_empty_path ED25519 test_rng = (Inr r, g')"
    using test_lib_generateKeyPair [of ED25519 test_gen_empty_path test_rng] by auto
  from s obtain kp vms auths kas has where
    "generateKeyPair_methods test_lib (generateDID test_gen_empty_path)
       (fst (generateNonce 16 test_rng)) ED25519
       (snd (generateNonce 16 test_rng)) = (Inr (kp, vms, auths, kas, has), g')"
    and r: "r = \<lparr>kpr_did_document = JSON_text
                  \<lparr>doc_context = did_contexts, doc_id = generateDID test_gen_empty_path,
                   verificationMethod = Some vms, authentication = auths,
                   keyAgreement = Some kas, humanAuthorization = Some has,
                   service = Some [\<lparr>svc_id = generateDID test_gen_empty_path
                       @ ''#agent-description'',
                     svc_type = ''AgentDescription'',
                     serviceEndpoint = ''https://'' @ domain test_gen_empty_path @ ''/agents/''
                       @ (if truthy (path test_gen_empty_path)
                          then (case path test_gen_empty_path of Some p \<Rightarrow> p | None \<Rightarrow> [])
                          else ''default'') @ ''/ad.json'',
                     svc_description = None\<rparr>]\<rparr>,
                kpr_private_key = generatePEMPrivateKey (kp_privateKey kp) ED25519,
                kpr_did = generateDID test_gen_empty_path\<rparr>"
    by (rule generateKeyPair_InrE)
  have "doc_id (JSON_parse (kpr_did_document r)) = ''did:wba:example.com''"
    and "map serviceEndpoint (services_of (JSON_parse (kpr_did_document r)))
         = [''https://example.com/agents/default/ad.json'']"
    by (simp_all add: r generateDID_cases test_gen_empty_path_def truthy_def services_of_def)
  then show ?thesis
    unfolding s by (simp add: test_gen_empty_path_def)
qed

section \<open>Setting the object up\<close>

text \<open>
  The steps of \<^verbatim>\<open>autoSetup\<close>: what each leaves in the object, when the keys were generated
  and when they were not.
\<close>

lemma generateDIDAndKeys_Inl:
  assumes "generateDIDAndKeys P host port this g = (Inl e, this1, g')"
  shows "this1 = this"
  using assms
  by (auto simp: generateDIDAndKeys_def Let_def split: prod.splits sum.splits)

lemma generateDIDAndKeys_InrE:
  assumes "generateDIDAndKeys P host port this g = (Inr u, this1, g')"
  obtains r where
    "generateKeyPair P \<lparr>domain = fullDomain host port, path = Some ''auto-agent''\<rparr>
       (keyType (options this)) g = (Inr r, g')"
    and "options this1 = options this"
    and "autoDid this1 = Some (kpr_did r)"
    and "privateKey this1 = Some (kpr_private_key r)"
    and "didDocument this1 = Some (JSON_parse (kpr_did_document r))"
    and "publicKey this1 =
           (case verificationMethod (JSON_parse (kpr_did_document r)) of
              Some (vm # rest) \<Rightarrow> publicKeyMultibase vm
            | _ \<Rightarrow> publicKey this)"
    and "agentDescription this1 = agentDescription this"
proof -
  let ?k = "generateKeyPair P \<lparr>domain = fullDomain host port, path = Some ''auto-agent''\<rparr>
       (keyType (options this)) g"
  obtain res g2 where k: "?k = (res, g2)" by (cases ?k)
  show ?thesis
  proof (cases res)
    case (Inl e)
    with assms k show ?thesis by (simp add: generateDIDAndKeys_def Let_def)
  next
    case (Inr r)
    with assms k have g: "g2 = g'" and
      t: "this1 = (case verificationMethod (JSON_parse (kpr_did_document r)) of
                         Some (vm # rest) \<Rightarrow>
                           (this\<lparr>autoDid := Some (kpr_did r),
                            privateKey := Some (kpr_private_key r),
                            didDocument := Some (JSON_parse (kpr_did_document r))\<rparr>)
                             \<lparr>publicKey := publicKeyMultibase vm\<rparr>
                       | _ \<Rightarrow> this\<lparr>autoDid := Some (kpr_did r),
                            privateKey := Some (kpr_private_key r),
                            didDocument := Some (JSON_parse (kpr_did_document r))\<rparr>)"
      by (simp_all add: generateDIDAndKeys_def Let_def)
    show ?thesis
    proof (rule that [of r])
      show "?k = (Inr r, g')" using k Inr g by simp
    qed (simp_all add: t split: option.splits list.splits)
  qed
qed

lemma configureDIDDocument_Some:
  assumes "didDocument this = Some doc"
  shows "configureDIDDocument this =
     (Inr (), this\<lparr>didDocument := Some (doc\<lparr>service := Some
        (if serviceEndpoints (options this) = []
         then services_of doc @ [default_service]
         else map endpoint_entry (serviceEndpoints (options this)))\<rparr>)\<rparr>)"
  using assms
  by (cases "service doc")
     (simp_all add: configureDIDDocument_def Let_def services_of_def)

lemma configureDIDDocument_None:
  "didDocument this = None \<Longrightarrow> \<exists>e. configureDIDDocument this = (Inl e, this)"
  by (simp add: configureDIDDocument_def)

lemma generateAgentDescription_fields:
  "options (generateAgentDescription now this) = options this"
  "autoDid (generateAgentDescription now this) = autoDid this"
  "privateKey (generateAgentDescription now this) = privateKey this"
  "publicKey (generateAgentDescription now this) = publicKey this"
  "didDocument (generateAgentDescription now this) = didDocument this"
  "agentDescription (generateAgentDescription now this) \<noteq> None"
  by (simp_all add: generateAgentDescription_def)

lemma getConfig_Inr:
  assumes "getConfig this = Inr cfg"
  shows "autoDid this = Some (cfg_did cfg)" "cfg_did cfg \<noteq> []"
    "privateKey this = Some (cfg_privateKey cfg)" "cfg_privateKey cfg \<noteq> []"
    "publicKey this = Some (cfg_publicKey cfg)" "cfg_publicKey cfg \<noteq> []"
    "didDocument this = Some (cfg_didDocument cfg)"
    "agentDescription this = Some (cfg_agentDescription cfg)"
    "cfg_keyType cfg = keyType (options this)"
  using assms
  by (auto simp: getConfig_def truthy_def split: if_splits option.splits)

lemma getConfig_no_publicKey:
  "publicKey this = None \<Longrightarrow> getConfig this = Inl (not_configured ''DID'')"
  by (simp add: getConfig_def truthy_def)

lemma autoSetup_after_keys:
  assumes "generateDIDAndKeys P host port this g = (Inr (), this1, g')"
    and "didDocument this1 = Some doc"
  shows "autoSetup P now host port this g =
     (getConfig (generateAgentDescription now
         (this1\<lparr>didDocument := Some (doc\<lparr>service := Some
            (if serviceEndpoints (options this1) = []
             then services_of doc @ [default_service]
             else map endpoint_entry (serviceEndpoints (options this1)))\<rparr>)\<rparr>)),
      generateAgentDescription now
         (this1\<lparr>didDocument := Some (doc\<lparr>service := Some
            (if serviceEndpoints (options this1) = []
             then services_of doc @ [default_service]
             else map endpoint_entry (serviceEndpoints (options this1)))\<rparr>)\<rparr>),
      g')"
  by (simp add: autoSetup_def assms(1) configureDIDDocument_Some [OF assms(2)] Let_def)

lemma autoSetup_InrE:
  assumes "autoSetup P now host port this g = (Inr cfg, this', g')"
  obtains r where
    "generateKeyPair P \<lparr>domain = fullDomain host port, path = Some ''auto-agent''\<rparr>
       (keyType (options this)) g = (Inr r, g')"
    and "options this' = options this"
    and "autoDid this' = Some (kpr_did r)"
    and "privateKey this' = Some (kpr_private_key r)"
    and "didDocument this' = Some ((JSON_parse (kpr_did_document r))\<lparr>service := Some
              (if serviceEndpoints (options this) = []
               then services_of (JSON_parse (kpr_did_document r)) @ [default_service]
               else map endpoint_entry (serviceEndpoints (options this)))\<rparr>)"
    and "getConfig this' = Inr cfg"
proof -
  obtain res this1 g1 where d: "generateDIDAndKeys P host port this g = (res, this1, g1)"
    by (cases "generateDIDAndKeys P host port this g")
  show ?thesis
  proof (cases res)
    case (Inl e)
    with assms d show ?thesis by (simp add: autoSetup_def)
  next
    case (Inr u)
    with d have d': "generateDIDAndKeys P host port this g = (Inr (), this1, g1)" by simp
    from d' obtain r where
      k: "generateKeyPair P \<lparr>domain = fullDomain host port, path = Some ''auto-agent''\<rparr>
         (keyType (options this)) g = (Inr r, g1)"
      and o: "options this1 = options this"
      and a: "autoDid this1 = Some (kpr_did r)"
      and p: "privateKey this1 = Some (kpr_private_key r)"
      and doc: "didDocument this1 = Some (JSON_parse (kpr_did_document r))"
      by (rule generateDIDAndKeys_InrE)
    from assms autoSetup_after_keys [OF d' doc, of now]
    have g: "g1 = g'"
      and t: "this' = generateAgentDescription now
           (this1\<lparr>didDocument := Some ((JSON_parse (kpr_did_document r))\<lparr>service := Some
              (if serviceEndpoints (options this) = []
               then services_of (JSON_parse (kpr_did_document r)) @ [default_service]
               else map endpoint_entry (serviceEndpoints (options this)))\<rparr>)\<rparr>)"
      and gc: "getConfig this' = Inr cfg"
      by (auto simp: o)
    show ?thesis
    proof (rule that [of r])
      show "generateKeyPair P \<lparr>domain = fullDomain host port, path = Some ''auto-agent''\<rparr>
         (keyType (options this)) g = (Inr r, g')"
        using k g by simp
    qed (simp_all add: t generateAgentDescription_fields o a p gc [unfolded t])
  qed
qed

lemma generateKeyPair_service:
  assumes "generateKeyPair P gen kt g = (Inr r, g')"
  shows "service (JSON_parse (kpr_did_document r)) =
       Some [\<lparr>svc_id = generateDID gen @ ''#agent-description'',
              svc_type = ''AgentDescription'',
              serviceEndpoint = ''https://'' @ domain gen @ ''/agents/''
                @ (if truthy (path gen)
                   then (case path gen of Some p \<Rightarrow> p | None \<Rightarrow> [])
                   else ''default'') @ ''/ad.json'',
              svc_description = None\<rparr>]"
proof -
  from assms obtain kp vms auths kas has where
    "generateKeyPair_methods P (generateDID gen) (fst (generateNonce 16 g)) kt
       (snd (generateNonce 16 g)) = (Inr (kp, vms, auths, kas, has), g')"
    and r: "r = \<lparr>kpr_did_document = JSON_text
                  \<lparr>doc_context = did_contexts, doc_id = generateDID gen,
                   verificationMethod = Some vms, authentication = auths,
                   keyAgreement = Some kas, humanAuthorization = Some has,
                   service = Some [\<lparr>svc_id = generateDID gen @ ''#agent-description'',
                     svc_type = ''AgentDescription'',
                     serviceEndpoint = ''https://'' @ domain gen @ ''/agents/''
                       @ (if truthy (path gen)
                          then (case path gen of Some p \<Rightarrow> p | None \<Rightarrow> [])
                          else ''default'') @ ''/ad.json'',
                     svc_description = None\<rparr>]\<rparr>,
                kpr_private_key = generatePEMPrivateKey (kp_privateKey kp) kt,
                kpr_did = generateDID gen\<rparr>"
    by (rule generateKeyPair_InrE)
  show ?thesis by (simp add: r)
qed

lemma generateKeyPair_first_method:
  assumes "generateKeyPair P gen kt g = (Inr r, g')"
  shows "\<exists>auth rest. verificationMethod (JSON_parse (kpr_did_document r)) = Some (auth # rest)
      \<and> (kt = SECP256K1 \<longrightarrow> publicKeyMultibase auth = None)
      \<and> (kt = ED25519 \<longrightarrow> (\<exists>pk. publicKeyMultibase auth = Some (CHR ''z'' # bs58_encode pk)))"
proof -
  from assms obtain kp vms auths kas has where
    m: "generateKeyPair_methods P (generateDID gen) (fst (generateNonce 16 g)) kt
       (snd (generateNonce 16 g)) = (Inr (kp, vms, auths, kas, has), g')"
    and r: "r = \<lparr>kpr_did_document = JSON_text
                  \<lparr>doc_context = did_contexts, doc_id = generateDID gen,
                   verificationMethod = Some vms, authentication = auths,
                   keyAgreement = Some kas, humanAuthorization = Some has,
                   service = Some [\<lparr>svc_id = generateDID gen @ ''#agent-description'',
                     svc_type = ''AgentDescription'',
                     serviceEndpoint = ''https://'' @ domain gen @ ''/agents/''
                       @ (if truthy (path gen)
                          then (case path gen of Some p \<Rightarrow> p | None \<Rightarrow> [])
                          else ''default'') @ ''/ad.json'',
                     svc_description = None\<rparr>]\<rparr>,
                kpr_private_key = generatePEMPrivateKey (kp_privateKey kp) kt,
                kpr_did = generateDID gen\<rparr>"
    by (rule generateKeyPair_InrE)
  have f: "verificationMethod (JSON_parse (kpr_did_document r)) = Some vms"
    by (simp add: r)
  have "\<exists>auth rest. vms = auth # rest
      \<and> (kt = SECP256K1 \<longrightarrow> publicKeyMultibase auth = None)
      \<and> (kt = ED25519 \<longrightarrow> (\<exists>pk. publicKeyMultibase auth = Some (CHR ''z'' # bs58_encode pk)))"
  proof (cases kt)
    case ED25519
    from methods_ED25519 [OF m [unfolded ED25519]] show ?thesis
      by (auto simp: ED25519 encodeMultibase_def)
  next
    case SECP256K1
    from methods_SECP256K1 [OF m [unfolded SECP256K1]] show ?thesis
      by (auto simp: SECP256K1)
  next
    case X25519
    with m show ?thesis by (simp add: generateKeyPair_methods_def)
  qed
  then show ?thesis by (simp add: f)
qed

lemma generatePEMPrivateKey_not_empty: "generatePEMPrivateKey sk kt \<noteq> []"
  by (simp add: generatePEMPrivateKey_def Let_def)

lemma generateDID_not_empty: "generateDID gen \<noteq> []"
  by (simp add: generateDID_def)

lemma generateKeyPair_private_key:
  assumes "generateKeyPair P gen kt g = (Inr r, g')"
  shows "kpr_private_key r \<noteq> []"
proof -
  from assms obtain kp vms auths kas has where
    "generateKeyPair_methods P (generateDID gen) (fst (generateNonce 16 g)) kt
       (snd (generateNonce 16 g)) = (Inr (kp, vms, auths, kas, has), g')"
    and r: "r = \<lparr>kpr_did_document = JSON_text
                  \<lparr>doc_context = did_contexts, doc_id = generateDID gen,
                   verificationMethod = Some vms, authentication = auths,
                   keyAgreement = Some kas, humanAuthorization = Some has,
                   service = Some [\<lparr>svc_id = generateDID gen @ ''#agent-description'',
                     svc_type = ''AgentDescription'',
                     serviceEndpoint = ''https://'' @ domain gen @ ''/agents/''
                       @ (if truthy (path gen)
                          then (case path gen of Some p \<Rightarrow> p | None \<Rightarrow> [])
                          else ''default'') @ ''/ad.json'',
                     svc_description = None\<rparr>]\<rparr>,
                kpr_private_key = generatePEMPrivateKey (kp_privateKey kp) kt,
                kpr_did = generateDID gen\<rparr>"
    by (rule generateKeyPair_InrE)
  show ?thesis by (simp add: r generatePEMPrivateKey_not_empty)
qed

lemma autoSetup_with_keys:
  assumes k: "generateKeyPair P \<lparr>domain = fullDomain host port, path = Some ''auto-agent''\<rparr>
       (keyType (options this)) g = (Inr r, g')"
  shows "\<exists>this'. autoSetup P now host port this g = (getConfig this', this', g')
      \<and> options this' = options this
      \<and> autoDid this' = Some (kpr_did r)
      \<and> privateKey this' = Some (kpr_private_key r)
      \<and> publicKey this' =
           (case verificationMethod (JSON_parse (kpr_did_document r)) of
              Some (vm # rest) \<Rightarrow> publicKeyMultibase vm
            | _ \<Rightarrow> publicKey this)
      \<and> didDocument this' \<noteq> None \<and> agentDescription this' \<noteq> None"
proof -
  obtain res this1 g1 where d: "generateDIDAndKeys P host port this g = (res, this1, g1)"
    by (cases "generateDIDAndKeys P host port this g")
  from d k have res: "res = Inr ()" and g: "g1 = g'"
    by (auto simp: generateDIDAndKeys_def Let_def split: option.splits list.splits)
  from d res g have d': "generateDIDAndKeys P host port this g = (Inr (), this1, g')"
    by simp
  from d' obtain r' where
    k': "generateKeyPair P \<lparr>domain = fullDomain host port, path = Some ''auto-agent''\<rparr>
         (keyType (options this)) g = (Inr r', g')"
    and o: "options this1 = options this"
    and a: "autoDid this1 = Some (kpr_did r')"
    and p: "privateKey this1 = Some (kpr_private_key r')"
    and doc: "didDocument this1 = Some (JSON_parse (kpr_did_document r'))"
    and pub: "publicKey this1 =
           (case verificationMethod (JSON_parse (kpr_did_document r')) of
              Some (vm # rest) \<Rightarrow> publicKeyMultibase vm
            | _ \<Rightarrow> publicKey this)"
    by (rule generateDIDAndKeys_InrE)
  from k k' have r: "r' = r" by simp
  show ?thesis
    by (rule exI, intro conjI, rule autoSetup_after_keys [OF d' doc])
       (simp_all add: generateAgentDescription_fields o a p pub r)
qed

lemma autoSetup_without_keys:
  assumes "generateKeyPair P \<lparr>domain = fullDomain host port, path = Some ''auto-agent''\<rparr>
       (keyType (options this)) g = (Inl e, g')"
  shows "autoSetup P now host port this g = (Inl e, this, g')"
  using assms by (simp add: autoSetup_def generateDIDAndKeys_def Let_def)

lemma getConfig_succeeds:
  assumes "autoDid this = Some a" "a \<noteq> []" "privateKey this = Some b" "b \<noteq> []"
    "publicKey this = Some c" "c \<noteq> []" "didDocument this \<noteq> None"
    "agentDescription this \<noteq> None"
  shows "\<exists>cfg. getConfig this = Inr cfg"
  using assms by (auto simp: getConfig_def truthy_def)

lemma autoSetup_ed25519_completes:
  assumes kt: "keyType (options this) = ED25519"
    and k: "generateKeyPair P \<lparr>domain = fullDomain host port, path = Some ''auto-agent''\<rparr>
       (keyType (options this)) g = (Inr r, g')"
  shows "\<exists>cfg this'. autoSetup P now host port this g = (Inr cfg, this', g')"
proof -
  from autoSetup_with_keys [OF k, of now] obtain this' where
    s: "autoSetup P now host port this g = (getConfig this', this', g')"
    and a: "autoDid this' = Some (kpr_did r)"
    and p: "privateKey this' = Some (kpr_private_key r)"
    and pub: "publicKey this' =
           (case verificationMethod (JSON_parse (kpr_did_document r)) of
              Some (vm # rest) \<Rightarrow> publicKeyMultibase vm
            | _ \<Rightarrow> publicKey this)"
    and d: "didDocument this' \<noteq> None" and ad: "agentDescription this' \<noteq> None"
    by auto
  from generateKeyPair_first_method [OF k] kt obtain pk where
    "publicKey this' = Some (CHR ''z'' # bs58_encode pk)"
    by (auto simp: pub)
  with a p d ad obtain cfg where "getConfig this' = Inr cfg"
    using getConfig_succeeds [of this' "kpr_did r" "kpr_private_key r"
        "CHR ''z'' # bs58_encode pk"]
      generateKeyPair_did [OF k] generateKeyPair_private_key [OF k]
    by (auto simp: generateDID_not_empty)
  with s show ?thesis by simp
qed

lemma test_lib_autoSetup:
  assumes "keyType (options this) = ED25519"
  shows "\<exists>cfg this' g'. autoSetup test_lib now host port this g = (Inr cfg, this', g')"
proof -
  obtain r g' where
    "generateKeyPair test_lib \<lparr>domain = fullDomain host port, path = Some ''auto-agent''\<rparr>
       (keyType (options this)) g = (Inr r, g')"
    using test_lib_generateKeyPair [of "keyType (options this)"] assms by metis
  from autoSetup_ed25519_completes [OF assms this] show ?thesis by blast
qed

lemma autoSetup_secp256k1:
  assumes kt: "keyType (options this) = SECP256K1"
  shows "fst (autoSetup P now host port this g)
      = (case fst (generateKeyPair P
                \<lparr>domain = fullDomain host port, path = Some ''auto-agent''\<rparr> SECP256K1 g) of
           Inl e \<Rightarrow> Inl e
         | Inr r \<Rightarrow> Inl (not_configured ''DID''))"
    and "publicKey this = None \<Longrightarrow> publicKey (fst (snd (autoSetup P now host port this g))) = None"
proof -
  let ?k = "generateKeyPair P \<lparr>domain = fullDomain host port, path = Some ''auto-agent''\<rparr>
       (keyType (options this)) g"
  obtain res g' where k: "?k = (res, g')" by (cases ?k)
  have "fst (autoSetup P now host port this g)
      = (case fst (generateKeyPair P
                \<lparr>domain = fullDomain host port, path = Some ''auto-agent''\<rparr> SECP256K1 g) of
           Inl e \<Rightarrow> Inl e
         | Inr r \<Rightarrow> Inl (not_configured ''DID''))
     \<and> (publicKey this = None \<longrightarrow>
          publicKey (fst (snd (autoSetup P now host port this g))) = None)"
  proof (cases res)
    case (Inl e)
    with k have "?k = (Inl e, g')" by simp
    from autoSetup_without_keys [OF this, of now] k Inl show ?thesis
      by (simp add: kt)
  next
    case (Inr r)
    with k have k': "?k = (Inr r, g')" by simp
    from autoSetup_with_keys [OF k', of now] obtain this' where
      s: "autoSetup P now host port this g = (getConfig this', this', g')"
      and pub: "publicKey this' =
           (case verificationMethod (JSON_parse (kpr_did_document r)) of
              Some (vm # rest) \<Rightarrow> publicKeyMultibase vm
            | _ \<Rightarrow> publicKey this)"
      by auto
    from generateKeyPair_first_method [OF k'] kt have "publicKey this' = None"
      by (auto simp: pub)
    with s k' show ?thesis
      by (simp add: getConfig_no_publicKey kt [symmetric])
  qed
  then show "fst (autoSetup P now host port this g)
      = (case fst (generateKeyPair P
                \<lparr>domain = fullDomain host port, path = Some ''auto-agent''\<rparr> SECP256K1 g) of
           Inl e \<Rightarrow> Inl e
         | Inr r \<Rightarrow> Inl (not_configured ''DID''))"
    and "publicKey this = None \<Longrightarrow> publicKey (fst (snd (autoSetup P now host port this g))) = None"
    by simp_all
qed

lemma test_fullDomain: "fullDomain ''localhost'' (Some 3000) = ''localhost:3000''"
  by (simp add: fullDomain_def char_of_eq_iff)

text \<open>
  Before \<^verbatim>\<open>autoSetup\<close> every accessor throws its not-configured error; after an
  \<^verbatim>\<open>autoSetup\<close> that has returned, every accessor returns the configured value. With the
  Ed25519 key type \<^verbatim>\<open>autoSetup\<close> returns whenever the keys can be generated
  (\<open>autoSetup_ed25519_completes\<close>).
\<close>

lemma accessors_before_autoSetup:
  "getConfig (DIDAutoConfig_new opts) = Inl (not_configured ''DID'')"
  "getDID (DIDAutoConfig_new opts) = Inl (not_configured ''DID'')"
  "getPrivateKey (DIDAutoConfig_new opts) = Inl (not_configured ''Private key'')"
  "getPublicKey (DIDAutoConfig_new opts) = Inl (not_configured ''Public key'')"
  "getDIDDocument (DIDAutoConfig_new opts) = Inl (not_configured ''DID document'')"
  "getAgentDescription (DIDAutoConfig_new opts) = Inl (not_configured ''Agent description'')"
  by (simp_all add: DIDAutoConfig_new_def getConfig_def getDID_def getPrivateKey_def
      getPublicKey_def getDIDDocument_def getAgentDescription_def truthy_def)

lemma accessors_after_autoSetup:
  assumes "autoSetup P now host port this g = (Inr cfg, this', g')"
  shows "getConfig this' = Inr cfg"
    "getDID this' = Inr (cfg_did cfg)"
    "getPrivateKey this' = Inr (cfg_privateKey cfg)"
    "getPublicKey this' = Inr (cfg_publicKey cfg)"
    "getDIDDocument this' = Inr (cfg_didDocument cfg)"
    "getAgentDescription this' = Inr (cfg_agentDescription cfg)"
proof -
  from assms obtain r where gc: "getConfig this' = Inr cfg"
    by (rule autoSetup_InrE)
  note f = getConfig_Inr [OF gc]
  show "getConfig this' = Inr cfg" by (rule gc)
  show "getDID this' = Inr (cfg_did cfg)" using f by (simp add: getDID_def)
  show "getPrivateKey this' = Inr (cfg_privateKey cfg)" using f by (simp add: getPrivateKey_def)
  show "getPublicKey this' = Inr (cfg_publicKey cfg)" using f by (simp add: getPublicKey_def)
  show "getDIDDocument this' = Inr (cfg_didDocument cfg)" using f by (simp add: getDIDDocument_def)
  show "getAgentDescription this' = Inr (cfg_agentDescription cfg)"
    using f by (simp add: getAgentDescription_def)
qed

text \<open>
  C8. The claim: every accessor throws a not-configured error before \<^verbatim>\<open>autoSetup\<close> has
  completed, and the failure is recoverable: after \<^verbatim>\<open>autoSetup\<close> has completed, for any
  supported key type, the accessor returns the configured value. For the Ed25519 key
  type that is what the two lemmas above say. For the secp256k1 key type the code cannot
  recover: \<^verbatim>\<open>generateDIDAndKeys\<close> reads the public key from \<^verbatim>\<open>publicKeyMultibase\<close> of the
  first verification method, which a secp256k1 method does not have (its key is a
  JWK), so \<^verbatim>\<open>publicKey\<close> stays unset and the \<^verbatim>\<open>getConfig\<close> that ends \<^verbatim>\<open>autoSetup\<close> throws.
  Whatever the libraries do, \<^verbatim>\<open>autoSetup\<close> throws (the error of the key generation, or
  the not-configured error), and on a new object \<^verbatim>\<open>getPublicKey\<close> and \<^verbatim>\<open>getConfig\<close> still
  throw afterwards.
\<close>

theorem autoSetup_secp256k1_never_completes:
  "fst (autoSetup P now host port (this\<lparr>options := (options this)\<lparr>keyType := SECP256K1\<rparr>\<rparr>) g)
      = (case fst (generateKeyPair P
                \<lparr>domain = fullDomain host port, path = Some ''auto-agent''\<rparr> SECP256K1 g) of
           Inl e \<Rightarrow> Inl e
         | Inr r \<Rightarrow> Inl (not_configured ''DID''))
   \<and> getPublicKey (fst (snd (autoSetup P now host port
         (DIDAutoConfig_new (opts\<lparr>in_keyType := Some SECP256K1\<rparr>)) g)))
      = Inl (not_configured ''Public key'')
   \<and> getConfig (fst (snd (autoSetup P now host port
         (DIDAutoConfig_new (opts\<lparr>in_keyType := Some SECP256K1\<rparr>)) g)))
      = Inl (not_configured ''DID'')"
proof -
  let ?new = "DIDAutoConfig_new (opts\<lparr>in_keyType := Some SECP256K1\<rparr>)"
  have kt: "keyType (options ?new) = SECP256K1" and pub: "publicKey ?new = None"
    by (simp_all add: DIDAutoConfig_new_def or_default_def)
  have none: "publicKey (fst (snd (autoSetup P now host port ?new g))) = None"
    by (rule autoSetup_secp256k1(2) [OF kt pub])
  have a: "fst (autoSetup P now host port
        (this\<lparr>options := (options this)\<lparr>keyType := SECP256K1\<rparr>\<rparr>) g)
      = (case fst (generateKeyPair P
                \<lparr>domain = fullDomain host port, path = Some ''auto-agent''\<rparr> SECP256K1 g) of
           Inl e \<Rightarrow> Inl e
         | Inr r \<Rightarrow> Inl (not_configured ''DID''))"
    by (rule autoSetup_secp256k1(1)) simp
  have b: "getPublicKey (fst (snd (autoSetup P now host port ?new g)))
      = Inl (not_configured ''Public key'')"
    by (simp add: getPublicKey_def none)
  have c: "getConfig (fst (snd (autoSetup P now host port ?new g))) = Inl (not_configured ''DID'')"
    by (rule getConfig_no_publicKey [OF none])
  show ?thesis by (intro conjI a b c)
qed

theorem autoSetup_secp256k1_never_completes_witness:
  "fst (autoSetup test_lib ''2024-01-01T00:00:00.000Z'' ''localhost'' (Some 3000)
         (DIDAutoConfig_new (test_options\<lparr>in_keyType := Some SECP256K1\<rparr>)) test_rng)
      = Inl (Error ''DID not configured yet. Call autoSetup() first.'')
   \<and> getPublicKey (fst (snd (autoSetup test_lib ''2024-01-01T00:00:00.000Z'' ''localhost''
         (Some 3000) (DIDAutoConfig_new (test_options\<lparr>in_keyType := Some SECP256K1\<rparr>))
         test_rng)))
      = Inl (Error ''Public key not configured yet. Call autoSetup() first.'')
   \<and> getConfig (fst (snd (autoSetup test_lib ''2024-01-01T00:00:00.000Z'' ''localhost''
         (Some 3000) (DIDAutoConfig_new (test_options\<lparr>in_keyType := Some SECP256K1\<rparr>))
         test_rng)))
      = Inl (Error ''DID not configured yet. Call autoSetup() first.'')"
proof -
  let ?new = "DIDAutoConfig_new (test_options\<lparr>in_keyType := Some SECP256K1\<rparr>)"
  have same: "?new\<lparr>options := (options ?new)\<lparr>keyType := SECP256K1\<rparr>\<rparr> = ?new"
    by (simp add: DIDAutoConfig_new_def or_default_def)
  obtain r g' where
    k: "generateKeyPair test_lib
          \<lparr>domain = fullDomain ''localhost'' (Some 3000), path = Some ''auto-agent''\<rparr>
          SECP256K1 test_rng = (Inr r, g')"
    using test_lib_generateKeyPair [of SECP256K1] by blast
  from autoSetup_secp256k1_never_completes
         [of test_lib "''2024-01-01T00:00:00.000Z''" "''localhost''" "Some 3000" ?new test_rng
            test_options]
  show ?thesis
    unfolding same by (simp add: k not_configured_def)
qed

text \<open>
  C10. After an \<^verbatim>\<open>autoSetup\<close> that has returned, the document the object exposes is the
  one of the returned configuration. When the \<^verbatim>\<open>serviceEndpoints\<close> option is empty (its
  default), the \<^verbatim>\<open>service\<close> array has exactly two entries: the AgentDescription entry of
  the key generator, then the entry with id \<^verbatim>\<open>default\<close>, type \<^verbatim>\<open>ANPAgentService\<close> and
  endpoint \<^verbatim>\<open>http://localhost:3000/anp/api\<close> (it also carries a description). When the
  option is not empty, the array is the configured endpoints, entry by entry, and the
  AgentDescription entry is gone.
\<close>

theorem autoSetup_services:
  assumes "autoSetup P now host port this g = (Inr cfg, this', g')"
  shows "getDIDDocument this' = Inr (cfg_didDocument cfg)
       \<and> cfg_did cfg = ''did:wba:'' @ fullDomain host port @ '':auto-agent''
       \<and> service (cfg_didDocument cfg) = Some
           (if serviceEndpoints (options this) = []
            then [\<lparr>svc_id = cfg_did cfg @ ''#agent-description'',
                    svc_type = ''AgentDescription'',
                    serviceEndpoint = ''https://'' @ fullDomain host port
                      @ ''/agents/auto-agent/ad.json'',
                    svc_description = None\<rparr>,
                  \<lparr>svc_id = ''default'', svc_type = ''ANPAgentService'',
                    serviceEndpoint = ''http://localhost:3000/anp/api'',
                    svc_description = Some ''Default ANP agent service endpoint''\<rparr>]
            else map endpoint_entry (serviceEndpoints (options this)))
       \<and> (in_serviceEndpoints opts = None \<longrightarrow>
            serviceEndpoints (options (DIDAutoConfig_new opts)) = [])"
proof -
  let ?gen = "\<lparr>domain = fullDomain host port, path = Some ''auto-agent''\<rparr>"
  from assms obtain r where
    k: "generateKeyPair P ?gen (keyType (options this)) g = (Inr r, g')"
    and a: "autoDid this' = Some (kpr_did r)"
    and d: "didDocument this' = Some ((JSON_parse (kpr_did_document r))\<lparr>service := Some
              (if serviceEndpoints (options this) = []
               then services_of (JSON_parse (kpr_did_document r)) @ [default_service]
               else map endpoint_entry (serviceEndpoints (options this)))\<rparr>)"
    and gc: "getConfig this' = Inr cfg"
    by (rule autoSetup_InrE)
  have did: "cfg_did cfg = ''did:wba:'' @ fullDomain host port @ '':auto-agent''"
    using getConfig_Inr(1) [OF gc] a generateKeyPair_did [OF k]
    by (simp add: generateDID_cases)
  have doc: "cfg_didDocument cfg = (JSON_parse (kpr_did_document r))\<lparr>service := Some
              (if serviceEndpoints (options this) = []
               then services_of (JSON_parse (kpr_did_document r)) @ [default_service]
               else map endpoint_entry (serviceEndpoints (options this)))\<rparr>"
    using getConfig_Inr(7) [OF gc] d by simp
  have svc: "services_of (JSON_parse (kpr_did_document r)) =
       [\<lparr>svc_id = cfg_did cfg @ ''#agent-description'',
              svc_type = ''AgentDescription'',
              serviceEndpoint = ''https://'' @ fullDomain host port
                      @ ''/agents/auto-agent/ad.json'',
              svc_description = None\<rparr>]"
    using generateKeyPair_service [OF k]
    by (simp add: services_of_def did generateDID_cases truthy_def)
  have 1: "getDIDDocument this' = Inr (cfg_didDocument cfg)"
    using getConfig_Inr(7) [OF gc] by (simp add: getDIDDocument_def)
  have 3: "service (cfg_didDocument cfg) = Some
           (if serviceEndpoints (options this) = []
            then [\<lparr>svc_id = cfg_did cfg @ ''#agent-description'',
                    svc_type = ''AgentDescription'',
                    serviceEndpoint = ''https://'' @ fullDomain host port
                      @ ''/agents/auto-agent/ad.json'',
                    svc_description = None\<rparr>,
                  \<lparr>svc_id = ''default'', svc_type = ''ANPAgentService'',
                    serviceEndpoint = ''http://localhost:3000/anp/api'',
                    svc_description = Some ''Default ANP agent service endpoint''\<rparr>]
            else map endpoint_entry (serviceEndpoints (options this)))"
    by (simp add: doc svc default_service_def)
  have 4: "in_serviceEndpoints opts = None \<longrightarrow>
            serviceEndpoints (options (DIDAutoConfig_new opts)) = []"
    by (simp add: DIDAutoConfig_new_def or_default_def)
  show ?thesis by (intro conjI 1 did 3 4)
qed

theorem autoSetup_services_witness:
  "(\<exists>cfg this' g'.
      autoSetup test_lib ''2024-01-01T00:00:00.000Z'' ''localhost'' (Some 3000)
        (DIDAutoConfig_new test_options) test_rng = (Inr cfg, this', g')
    \<and> getDIDDocument this' = Inr (cfg_didDocument cfg)
    \<and> map svc_id (services_of (cfg_didDocument cfg))
        = [''did:wba:localhost:3000:auto-agent#agent-description'', ''default'']
    \<and> map svc_type (services_of (cfg_didDocument cfg))
        = [''AgentDescription'', ''ANPAgentService'']
    \<and> map serviceEndpoint (services_of (cfg_didDocument cfg))
        = [''https://localhost:3000/agents/auto-agent/ad.json'',
           ''http://localhost:3000/anp/api''])
 \<and> (\<exists>cfg this' g'.
      autoSetup test_lib ''2024-01-01T00:00:00.000Z'' ''localhost'' (Some 3000)
        (DIDAutoConfig_new (test_options\<lparr>in_serviceEndpoints := Some [test_endpoint_new]\<rparr>))
        test_rng = (Inr cfg, this', g')
    \<and> getDIDDocument this' = Inr (cfg_didDocument cfg)
    \<and> map svc_id (services_of (cfg_didDocument cfg)) = [''messaging'']
    \<and> map svc_type (services_of (cfg_didDocument cfg)) = [''MessagingService''])"
proof (rule conjI)
  let ?new = "DIDAutoConfig_new test_options"
  have kt: "keyType (options ?new) = ED25519" and eps: "serviceEndpoints (options ?new) = []"
    by (simp_all add: DIDAutoConfig_new_def test_options_def or_default_def)
  from test_lib_autoSetup [OF kt] obtain cfg this' g' where
    s: "autoSetup test_lib ''2024-01-01T00:00:00.000Z'' ''localhost'' (Some 3000) ?new test_rng
         = (Inr cfg, this', g')"
    by blast
  note t = autoSetup_services [OF s, of test_options]
  from t have 1: "getDIDDocument this' = Inr (cfg_didDocument cfg)" by (rule conjunct1)
  from t have did: "cfg_did cfg = ''did:wba:localhost:3000:auto-agent''"
    by (simp add: test_fullDomain)
  from t have svc: "services_of (cfg_didDocument cfg) =
        [\<lparr>svc_id = ''did:wba:localhost:3000:auto-agent#agent-description'',
           svc_type = ''AgentDescription'',
           serviceEndpoint = ''https://localhost:3000/agents/auto-agent/ad.json'',
           svc_description = None\<rparr>,
         \<lparr>svc_id = ''default'', svc_type = ''ANPAgentService'',
           serviceEndpoint = ''http://localhost:3000/anp/api'',
           svc_description = Some ''Default ANP agent service endpoint''\<rparr>]"
    by (simp add: eps services_of_def test_fullDomain)
  show "\<exists>cfg this' g'.
      autoSetup test_lib ''2024-01-01T00:00:00.000Z'' ''localhost'' (Some 3000)
        (DIDAutoConfig_new test_options) test_rng = (Inr cfg, this', g')
    \<and> getDIDDocument this' = Inr (cfg_didDocument cfg)
    \<and> map svc_id (services_of (cfg_didDocument cfg))
        = [''did:wba:localhost:3000:auto-agent#agent-description'', ''default'']
    \<and> map svc_type (services_of (cfg_didDocument cfg))
        = [''AgentDescription'', ''ANPAgentService'']
    \<and> map serviceEndpoint (services_of (cfg_didDocument cfg))
        = [''https://localhost:3000/agents/auto-agent/ad.json'',
           ''http://localhost:3000/anp/api'']"
    by (rule exI [of _ cfg], rule exI [of _ this'], rule exI [of _ g'])
       (intro conjI, rule s, rule 1, simp_all add: svc)
next
  let ?new = "DIDAutoConfig_new (test_options\<lparr>in_serviceEndpoints := Some [test_endpoint_new]\<rparr>)"
  have kt: "keyType (options ?new) = ED25519"
    and eps: "serviceEndpoints (options ?new) = [test_endpoint_new]"
    by (simp_all add: DIDAutoConfig_new_def test_options_def or_default_def)
  from test_lib_autoSetup [OF kt] obtain cfg this' g' where
    s: "autoSetup test_lib ''2024-01-01T00:00:00.000Z'' ''localhost'' (Some 3000) ?new test_rng
         = (Inr cfg, this', g')"
    by blast
  note t = autoSetup_services [OF s, of test_options]
  from t have 1: "getDIDDocument this' = Inr (cfg_didDocument cfg)" by (rule conjunct1)
  from t have svc: "services_of (cfg_didDocument cfg) = [endpoint_entry test_endpoint_new]"
    by (simp add: eps services_of_def)
  show "\<exists>cfg this' g'.
      autoSetup test_lib ''2024-01-01T00:00:00.000Z'' ''localhost'' (Some 3000)
        (DIDAutoConfig_new (test_options\<lparr>in_serviceEndpoints := Some [test_endpoint_new]\<rparr>))
        test_rng = (Inr cfg, this', g')
    \<and> getDIDDocument this' = Inr (cfg_didDocument cfg)
    \<and> map svc_id (services_of (cfg_didDocument cfg)) = [''messaging'']
    \<and> map svc_type (services_of (cfg_didDocument cfg)) = [''MessagingService'']"
    by (rule exI [of _ cfg], rule exI [of _ this'], rule exI [of _ g'])
       (intro conjI, rule s, rule 1,
        simp_all add: svc endpoint_entry_def test_endpoint_new_def)
qed

end
